theory Spec2Isabelle
  imports Complex_Main "HOL-Library.List_Lexorder" "HOL-Library.Char_ord"
begin

section \<open>Values, exceptions and the clock\<close>

text \<open>
  A shipment observation is a Python dict from field names to values. The values that
  reach the engine are numbers, strings and \<open>None\<close>. A number is a real: it stands for the
  Python float nearest to it, and an integer of an observation is small enough to be a
  float itself (below \<open>2 ^ 53\<close>).
\<close>

datatype pyval = PNone | PNum real | PStr string

type_synonym observation = "string \<rightharpoonup> pyval"

datatype exn =
  ValueError string | KeyError string | TypeError string | FileNotFoundError string
  | LibraryError string

text \<open>\<open>str(e)\<close>: a \<open>KeyError\<close> prints its key in quotes.\<close>

fun str_exn :: "exn \<Rightarrow> string" where
  "str_exn (ValueError m) = m"
| "str_exn (KeyError k) = CHR 0x27 # k @ [CHR 0x27]"
| "str_exn (TypeError m) = m"
| "str_exn (FileNotFoundError m) = m"
| "str_exn (LibraryError m) = m"

text \<open>
  \<open>datetime.now()\<close> reads the wall clock. The clock is the sequence of the readings
  still to come, in seconds since 1970-01-01 00:00 (a Thursday); a read takes the first
  and leaves the rest.
\<close>

type_synonym clock = "nat \<Rightarrow> int"

definition now :: "clock \<Rightarrow> int \<times> clock" where
  "now clk = (clk 0, \<lambda>n. clk (Suc n))"

section \<open>Binary floating point\<close>

text \<open>
  A Python or numpy float is a binary64 number, and every arithmetic operation on floats
  returns the float nearest to the exact result, a tie going to the even significand.
  \<open>fl\<close> is that rounding: the real is scaled so that its integer part has 53 bits,
  rounded to the nearest integer and scaled back. It is meant for the range of the normal
  numbers: overflow to infinity and subnormal results are not modelled.
\<close>

definition round_even :: "real \<Rightarrow> int" where
  "round_even y =
     (let f = \<lfloor>y\<rfloor>
      in if y - of_int f < 1 / 2 then f
         else if 1 / 2 < y - of_int f then f + 1
         else if even f then f else f + 1)"

definition pow2 :: "int \<Rightarrow> real" where
  "pow2 e = (if 0 \<le> e then 2 ^ nat e else 1 / 2 ^ nat (- e))"

text \<open>
  The exponent \<open>b\<close> with \<open>2 ^ b \<le> |x| < 2 ^ (b + 1)\<close>, among the exponents of the
  normal binary64 numbers.
\<close>

definition binade :: "real \<Rightarrow> int" where
  "binade x =
     (case find (\<lambda>b. pow2 b \<le> \<bar>x\<bar> \<and> \<bar>x\<bar> < pow2 (b + 1)) [- 1022..1023] of
        Some b \<Rightarrow> b
      | None \<Rightarrow> 0)"

definition fl :: "real \<Rightarrow> real" where
  "fl x = (if x = 0 then 0
           else of_int (round_even (x / pow2 (binade x - 52))) * pow2 (binade x - 52))"

section \<open>Data frame cells\<close>

text \<open>
  A numeric cell of a pandas frame is a float: a finite number, an infinity or NaN.
  Addition and division round their result; division by zero gives an infinity or NaN
  there, it does not raise.
\<close>

datatype fval = Num real | PInf | NInf | NaN

fun fadd :: "fval \<Rightarrow> fval \<Rightarrow> fval" where
  "fadd (Num a) (Num b) = Num (fl (fl a + fl b))"
| "fadd NaN _ = NaN"
| "fadd _ NaN = NaN"
| "fadd PInf NInf = NaN"
| "fadd NInf PInf = NaN"
| "fadd PInf _ = PInf"
| "fadd _ PInf = PInf"
| "fadd NInf _ = NInf"
| "fadd _ NInf = NInf"

fun fdiv :: "fval \<Rightarrow> fval \<Rightarrow> fval" where
  "fdiv (Num a) (Num b) =
     (if b = 0 then (if a = 0 then NaN else if 0 < a then PInf else NInf)
      else Num (fl (fl a / fl b)))"
| "fdiv NaN _ = NaN"
| "fdiv _ NaN = NaN"
| "fdiv (Num a) _ = Num 0"
| "fdiv PInf (Num b) = (if b < 0 then NInf else PInf)"
| "fdiv NInf (Num b) = (if b < 0 then PInf else NInf)"
| "fdiv _ _ = NaN"

text \<open>\<open>series >= c\<close>: a comparison with NaN is false.\<close>

fun fge :: "fval \<Rightarrow> real \<Rightarrow> bool" where
  "fge (Num a) c = (c \<le> a)"
| "fge PInf c = True"
| "fge _ c = False"

text \<open>
  A cell is an untouched observation value (object dtype), a float, or a datetime
  (\<open>None\<close> is pandas' NaT).
\<close>

datatype cell = Obj pyval | Flt fval | Dt "int option"

type_synonym frame = "string \<rightharpoonup> cell"

text \<open>
  The two pandas functions whose parsing the engine relies on are parameters:
  \<open>str_to_numeric\<close> is what \<open>pd.to_numeric(errors='coerce')\<close> makes of a string
  (NaN when it is not a number), \<open>to_datetime\<close> is \<open>pd.to_datetime\<close>, which
  raises on an unparseable value and gives NaT for a missing one.
\<close>

record pandas =
  str_to_numeric :: "string \<Rightarrow> fval"
  to_datetime :: "pyval \<Rightarrow> exn + int option"

fun to_numeric :: "pandas \<Rightarrow> pyval \<Rightarrow> fval" where
  "to_numeric pd (PNum r) = Num r"
| "to_numeric pd (PStr s) = str_to_numeric pd s"
| "to_numeric pd PNone = NaN"

fun fillna :: "real \<Rightarrow> fval \<Rightarrow> fval" where
  "fillna d NaN = Num d"
| "fillna d v = v"

fun dt_hour :: "int option \<Rightarrow> fval" where
  "dt_hour None = NaN"
| "dt_hour (Some t) = Num (real_of_int ((t div 3600) mod 24))"

text \<open>Monday is 0; day 0 of the epoch is a Thursday.\<close>

fun dt_dayofweek :: "int option \<Rightarrow> fval" where
  "dt_dayofweek None = NaN"
| "dt_dayofweek (Some t) = Num (real_of_int ((t div 86400 + 3) mod 7))"

section \<open>The label encoder\<close>

text \<open>
  scikit-learn's \<open>LabelEncoder\<close>: \<open>classes\<close> (the attribute \<^verbatim>\<open>classes_\<close>) holds the labels seen by \<open>fit\<close>,
  and \<open>transform\<close> maps a label to its position in \<open>classes\<close>, raising
  \<open>ValueError\<close> for a label that is not there.
\<close>

record label_encoder =
  classes :: "pyval list"

fun index_of :: "'a \<Rightarrow> 'a list \<Rightarrow> nat option" where
  "index_of x [] = None"
| "index_of x (y # ys) = (if x = y then Some 0 else map_option Suc (index_of x ys))"

definition transform :: "label_encoder \<Rightarrow> pyval \<Rightarrow> exn + nat" where
  "transform encoder x =
     (case index_of x (classes encoder) of
        None \<Rightarrow> Inl (ValueError ''y contains previously unseen labels'')
      | Some i \<Rightarrow> Inr i)"

section \<open>The inference engine (ml/predict_delay.py)\<close>

text \<open>
  \<open>DelayPredictor\<close>: the classifier (absent until an artifact is loaded) and the
  scaler are opaque fitted objects whose calls may raise; \<open>model\<close> stands for
  \<open>predict_proba(...)[0, 1]\<close>.
\<close>

record delay_predictor =
  model :: "(fval list \<Rightarrow> exn + real) option"
  scaler :: "cell list \<Rightarrow> exn + fval list"
  feature_encoders :: "string \<rightharpoonup> label_encoder"
  feature_columns :: "string list"

text \<open>
  The body of the loop over \<open>['weather', 'traffic_level']\<close>: the column is encoded
  when the observation has the field and the artifact has an encoder for it, and is 0
  otherwise; a value outside \<open>classes\<close> is 0 as well.
\<close>

definition encode_column :: "delay_predictor \<Rightarrow> observation \<Rightarrow> string \<Rightarrow> exn + cell" where
  "encode_column eng shipment_data col =
     (case (shipment_data col, feature_encoders eng col) of
        (Some x, Some encoder) \<Rightarrow>
          (if x \<in> set (classes encoder)
           then (case transform encoder x of
                   Inl e \<Rightarrow> Inl e
                 | Inr c \<Rightarrow> Inr (Flt (Num (real c))))
           else Inr (Flt (Num 0)))
      | _ \<Rightarrow> Inr (Flt (Num 0)))"

text \<open>
  The time column: the observation's timestamp when it has one, the clock otherwise.
\<close>

definition timestamp_column ::
  "pandas \<Rightarrow> clock \<Rightarrow> observation \<Rightarrow> (exn + int option) \<times> clock" where
  "timestamp_column pd clk shipment_data =
     (case shipment_data ''timestamp'' of
        Some v \<Rightarrow> (to_datetime pd v, clk)
      | None \<Rightarrow> (case now clk of (t, clk') \<Rightarrow> (Inr (Some t), clk')))"

text \<open>The loop that adds every missing schema column with value 0.\<close>

definition fill_missing :: "string list \<Rightarrow> frame \<Rightarrow> frame" where
  "fill_missing cols df =
     fold (\<lambda>col d. case d col of None \<Rightarrow> d(col \<mapsto> Flt (Num 0)) | Some _ \<Rightarrow> d) cols df"

text \<open>\<open>df[cols]\<close>, first row: a column that is not in the frame raises \<open>KeyError\<close>.\<close>

fun select_columns :: "frame \<Rightarrow> string list \<Rightarrow> exn + cell list" where
  "select_columns df [] = Inr []"
| "select_columns df (c # cs) =
     (case df c of
        None \<Rightarrow> Inl (KeyError c)
      | Some v \<Rightarrow> (case select_columns df cs of
                    Inl e \<Rightarrow> Inl e
                  | Inr vs \<Rightarrow> Inr (v # vs)))"

text \<open>
  The frame after every feature has been computed, from the coerced distance and speed,
  the two encoded columns and the time column.
\<close>

definition computed_frame ::
  "observation \<Rightarrow> fval \<Rightarrow> fval \<Rightarrow> cell \<Rightarrow> cell \<Rightarrow> int option \<Rightarrow> frame" where
  "computed_frame shipment_data distance speed w t ts =
     (let day_of_week = dt_dayofweek ts in
      (\<lambda>k. map_option Obj (shipment_data k))
        (''distance_remaining_km'' \<mapsto> Flt distance,
         ''vehicle_speed_kmph'' \<mapsto> Flt speed,
         ''weather_encoded'' \<mapsto> w,
         ''traffic_level_encoded'' \<mapsto> t,
         ''timestamp'' \<mapsto> Dt ts,
         ''hour_of_day'' \<mapsto> Flt (dt_hour ts),
         ''day_of_week'' \<mapsto> Flt day_of_week,
         ''is_weekend'' \<mapsto> Flt (Num (if fge day_of_week 5 then 1 else 0)),
         ''origin_risk_score'' \<mapsto> Flt (Num (1 / 10)),
         ''destination_risk_score'' \<mapsto> Flt (Num (1 / 10)),
         ''route_complexity'' \<mapsto>
            Flt (fdiv (fdiv distance (fadd speed (Num 1))) (Num 100))))"

definition prepare_features ::
  "pandas \<Rightarrow> delay_predictor \<Rightarrow> clock \<Rightarrow> observation \<Rightarrow> (exn + cell list) \<times> clock" where
  "prepare_features pd eng clk shipment_data =
     (case shipment_data ''distance_remaining_km'' of
        None \<Rightarrow> (Inl (KeyError ''distance_remaining_km''), clk)
      | Some dv \<Rightarrow>
     (case shipment_data ''vehicle_speed_kmph'' of
        None \<Rightarrow> (Inl (KeyError ''vehicle_speed_kmph''), clk)
      | Some sv \<Rightarrow>
     (case encode_column eng shipment_data ''weather'' of
        Inl e \<Rightarrow> (Inl e, clk)
      | Inr w \<Rightarrow>
     (case encode_column eng shipment_data ''traffic_level'' of
        Inl e \<Rightarrow> (Inl e, clk)
      | Inr t \<Rightarrow>
     (case timestamp_column pd clk shipment_data of
        (Inl e, clk') \<Rightarrow> (Inl e, clk')
      | (Inr ts, clk') \<Rightarrow>
          (select_columns
             (fill_missing (feature_columns eng)
                (computed_frame shipment_data
                   (fillna 1000 (to_numeric pd dv)) (fillna 60 (to_numeric pd sv)) w t ts))
             (feature_columns eng), clk'))))))"


text \<open>
  A prediction result is the dict that \<open>predict_delay\<close> returns. A field the dict
  does not have (\<open>features\<close> in a degraded result, \<open>error\<close> in a regular one) is
  \<open>None\<close>. The feature snapshot \<open>dict(zip(...))\<close> is kept as the zipped list.
\<close>

datatype risk = High | Medium | Low

record prediction_result =
  shipment_id :: pyval
  delay_probability :: real
  risk_level :: risk
  estimated_delay_minutes :: int
  prediction_timestamp :: int
  features :: "(string \<times> cell) list option"
  error :: "string option"
  model_version :: string

text \<open>\<open>d.get(key)\<close> and \<open>d.get(key, default)\<close>.\<close>

definition get :: "observation \<Rightarrow> string \<Rightarrow> pyval" where
  "get d k = (case d k of None \<Rightarrow> PNone | Some v \<Rightarrow> v)"

definition get_default :: "observation \<Rightarrow> string \<Rightarrow> pyval \<Rightarrow> pyval" where
  "get_default d k dflt = (case d k of None \<Rightarrow> dflt | Some v \<Rightarrow> v)"

text \<open>\<open>int(x)\<close> of a float truncates towards zero.\<close>

definition py_int :: "real \<Rightarrow> int" where
  "py_int x = (if 0 \<le> x then \<lfloor>x\<rfloor> else \<lceil>x\<rceil>)"

text \<open>
  \<open>min(shipment_data.get('distance_remaining_km', 1000) / 1000, 2)\<close>, on the raw
  field: the quotient is a float, and dividing a string or \<open>None\<close> raises
  \<open>TypeError\<close>.
\<close>

definition distance_factor :: "observation \<Rightarrow> exn + real" where
  "distance_factor shipment_data =
     (case get_default shipment_data ''distance_remaining_km'' (PNum 1000) of
        PNum d \<Rightarrow> Inr (min (fl (fl d / 1000)) 2)
      | _ \<Rightarrow> Inl (TypeError ''unsupported operand type(s) for /''))"

text \<open>
  The estimate: \<open>base_delay = delay_probability * 120\<close> and its product with the
  distance factor are float products.
\<close>

definition estimated_delay :: "real \<Rightarrow> observation \<Rightarrow> exn + int" where
  "estimated_delay p shipment_data =
     (if p > 0.5
      then (case distance_factor shipment_data of
              Inl e \<Rightarrow> Inl e
            | Inr f \<Rightarrow> Inr (py_int (fl (fl (fl p * 120) * f))))
      else Inr 0)"

definition risk_categorization :: "real \<Rightarrow> risk" where
  "risk_categorization p =
     (if p \<ge> 0.7 then High else if p \<ge> 0.4 then Medium else Low)"

text \<open>The \<open>try\<close> block of \<open>predict_delay\<close>, for a loaded classifier \<open>m\<close>.\<close>

definition predict_delay_try ::
  "pandas \<Rightarrow> delay_predictor \<Rightarrow> (fval list \<Rightarrow> exn + real) \<Rightarrow> clock \<Rightarrow> observation
     \<Rightarrow> (exn + real \<times> prediction_result) \<times> clock" where
  "predict_delay_try pd eng m clk shipment_data =
     (case prepare_features pd eng clk shipment_data of
        (Inl e, clk1) \<Rightarrow> (Inl e, clk1)
      | (Inr feats, clk1) \<Rightarrow>
     (case scaler eng feats of
        Inl e \<Rightarrow> (Inl e, clk1)
      | Inr features_scaled \<Rightarrow>
     (case m features_scaled of
        Inl e \<Rightarrow> (Inl e, clk1)
      | Inr p \<Rightarrow>
     (case estimated_delay p shipment_data of
        Inl e \<Rightarrow> (Inl e, clk1)
      | Inr minutes \<Rightarrow>
     (case now clk1 of (t, clk2) \<Rightarrow>
        (Inr (p, \<lparr>shipment_id = get shipment_data ''shipment_id'',
                  delay_probability = p,
                  risk_level = risk_categorization p,
                  estimated_delay_minutes = minutes,
                  prediction_timestamp = t,
                  features = Some (zip (feature_columns eng) feats),
                  error = None,
                  model_version = ''1.0''\<rparr>), clk2))))))"

text \<open>The "default safe prediction" of both \<open>except\<close> branches.\<close>

definition degraded :: "pyval \<Rightarrow> int \<Rightarrow> exn \<Rightarrow> prediction_result" where
  "degraded sid t e =
     \<lparr>shipment_id = sid,
      delay_probability = 0.5,
      risk_level = Medium,
      estimated_delay_minutes = 60,
      prediction_timestamp = t,
      features = None,
      error = Some (str_exn e),
      model_version = ''1.0''\<rparr>"

definition predict_delay ::
  "pandas \<Rightarrow> delay_predictor \<Rightarrow> clock \<Rightarrow> observation
     \<Rightarrow> (exn + real \<times> prediction_result) \<times> clock" where
  "predict_delay pd eng clk shipment_data =
     (case model eng of
        None \<Rightarrow> (Inl (ValueError ''Model not loaded. Please load a trained model first.''), clk)
      | Some m \<Rightarrow>
          (case predict_delay_try pd eng m clk shipment_data of
             (Inr r, clk1) \<Rightarrow> (Inr r, clk1)
           | (Inl e, clk1) \<Rightarrow>
               (case now clk1 of (t, clk2) \<Rightarrow>
                  (Inr (0.5, degraded (get shipment_data ''shipment_id'') t e), clk2))))"

text \<open>The body of the loop of \<open>predict_batch\<close>: one item, with its own \<open>except\<close>.\<close>

definition batch_item ::
  "pandas \<Rightarrow> delay_predictor \<Rightarrow> clock \<Rightarrow> observation \<Rightarrow> prediction_result \<times> clock" where
  "batch_item pd eng clk shipment =
     (case predict_delay pd eng clk shipment of
        (Inr (probability, result), clk1) \<Rightarrow> (result, clk1)
      | (Inl e, clk1) \<Rightarrow>
          (case now clk1 of (t, clk2) \<Rightarrow>
             (degraded (get_default shipment ''shipment_id'' (PStr ''unknown'')) t e, clk2)))"

fun predict_batch_loop ::
  "pandas \<Rightarrow> delay_predictor \<Rightarrow> clock \<Rightarrow> observation list \<Rightarrow> prediction_result list
     \<Rightarrow> prediction_result list \<times> clock" where
  "predict_batch_loop pd eng clk [] results = (results, clk)"
| "predict_batch_loop pd eng clk (shipment # rest) results =
     (case batch_item pd eng clk shipment of
        (r, clk1) \<Rightarrow> predict_batch_loop pd eng clk1 rest (results @ [r]))"

text \<open>
  \<open>predict_batch\<close> has no \<open>raise\<close> of its own and catches every exception of an
  item, so its only outcome is the list; the sum type keeps that visible.
\<close>

definition predict_batch ::
  "pandas \<Rightarrow> delay_predictor \<Rightarrow> clock \<Rightarrow> observation list
     \<Rightarrow> (exn + prediction_result list) \<times> clock" where
  "predict_batch pd eng clk shipment_list =
     (case predict_batch_loop pd eng clk shipment_list [] of
        (results, clk1) \<Rightarrow> (Inr results, clk1))"

text \<open>The clock as item \<open>i\<close> of a batch finds it: after the items before it.\<close>

fun clock_after :: "pandas \<Rightarrow> delay_predictor \<Rightarrow> clock \<Rightarrow> observation list \<Rightarrow> clock" where
  "clock_after pd eng clk [] = clk"
| "clock_after pd eng clk (shipment # rest) =
     clock_after pd eng (snd (batch_item pd eng clk shipment)) rest"

definition should_trigger_alert :: "prediction_result \<Rightarrow> real \<Rightarrow> bool" where
  "should_trigger_alert prediction_result threshold =
     (delay_probability prediction_result \<ge> threshold)"


section \<open>Artifacts: saving and loading\<close>

text \<open>
  The bundle that \<open>joblib\<close> stores is a dict; a key the dict lacks is \<open>None\<close>
  here, and reading it raises \<open>KeyError\<close>. The classifier of a bundle may itself be
  Python's \<open>None\<close> (a trainer saved before training).
\<close>

record model_data =
  md_model :: "(fval list \<Rightarrow> exn + real) option option"
  md_scaler :: "(cell list \<Rightarrow> exn + fval list) option"
  md_feature_encoders :: "(string \<rightharpoonup> label_encoder) option"
  md_feature_columns :: "string list option"
  md_trained_at :: "int option"
  md_version :: "string option"

text \<open>A file is a pickled bundle, or something \<open>joblib.load\<close> cannot read.\<close>

datatype artifact_file = Unreadable | Pickled model_data

type_synonym filesystem = "string \<rightharpoonup> artifact_file"

text \<open>\<open>self.scaler = None\<close>: any call on it raises.\<close>

definition no_scaler :: "cell list \<Rightarrow> exn + fval list" where
  "no_scaler feats = Inl (LibraryError ''NoneType object has no attribute transform'')"

text \<open>
  \<open>load_model\<close> of the inference class: every exception is caught and reported as
  \<open>False\<close>; the fields assigned before the exception stay assigned.
\<close>

definition load_model ::
  "filesystem \<Rightarrow> string \<Rightarrow> delay_predictor \<Rightarrow> bool \<times> delay_predictor" where
  "load_model fs model_path eng =
     (case fs model_path of
        None \<Rightarrow> (False, eng)
      | Some Unreadable \<Rightarrow> (False, eng)
      | Some (Pickled md) \<Rightarrow>
     (case md_model md of
        None \<Rightarrow> (False, eng)
      | Some m \<Rightarrow>
     (case md_scaler md of
        None \<Rightarrow> (False, eng\<lparr>model := m\<rparr>)
      | Some sc \<Rightarrow>
     (case md_feature_encoders md of
        None \<Rightarrow> (False, eng\<lparr>model := m, scaler := sc\<rparr>)
      | Some encs \<Rightarrow>
     (case md_feature_columns md of
        None \<Rightarrow> (False, eng\<lparr>model := m, scaler := sc, feature_encoders := encs\<rparr>)
      | Some cols \<Rightarrow>
          (True, eng\<lparr>model := m, scaler := sc, feature_encoders := encs,
                      feature_columns := cols\<rparr>))))))"

text \<open>\<open>DelayPredictor(model_path)\<close>: loads only when the file exists.\<close>

definition init_predictor :: "filesystem \<Rightarrow> string \<Rightarrow> delay_predictor" where
  "init_predictor fs model_path =
     (let eng = \<lparr>model = None, scaler = no_scaler, feature_encoders = Map.empty,
                 feature_columns = []\<rparr>
      in if fs model_path \<noteq> None then snd (load_model fs model_path eng) else eng)"

section \<open>Alerting (utils/alerting.py, dags/delay_prediction_dag.py)\<close>

text \<open>The dict that \<open>trigger_alerts\<close> builds and \<open>create_alert\<close> stores.\<close>

record alert_data =
  alert_shipment_id :: pyval
  alert_type :: string
  severity :: string
  title :: string
  message :: string
  metadata :: prediction_result

text \<open>
  Modelled from the spec: the row of the \<open>alerts\<close> table, whose declaration
  (\<open>schema.sql\<close>) is not among the sources. A new row is active and its trigger time
  is the time of the insertion; \<open>create_alert\<close> names neither column and relies on
  the table's defaults. What else the table requires of a row (column types,
  constraints) and whether the database can be reached are the parameter \<open>accepts\<close>
  of the store: when it is false, a statement of \<open>create_alert\<close> raises.
\<close>

record alert_row =
  row_id :: nat
  row_data :: alert_data
  triggered_at :: int
  is_active :: bool
  resolved_at :: "int option"
  resolved_by :: "string option"

record alert_store =
  accepts :: "alert_data \<Rightarrow> bool"
  alerts :: "alert_row list"

record alert_manager =
  database_url :: "string option"

text \<open>SQL's \<open>=\<close> on the shipment column: never true of NULL.\<close>

definition sql_eq :: "pyval \<Rightarrow> pyval \<Rightarrow> bool" where
  "sql_eq a b = (a \<noteq> PNone \<and> b \<noteq> PNone \<and> a = b)"

text \<open>
  The \<open>WHERE\<close> clause of the duplicate check, at database time \<open>t\<close> (seconds):
  same shipment, same type, active, triggered less than an hour ago. \<open>NOW()\<close> is
  one reading of the database clock for the whole transaction.
\<close>

definition similar_active :: "int \<Rightarrow> pyval \<Rightarrow> string \<Rightarrow> alert_row \<Rightarrow> bool" where
  "similar_active t sid ty row =
     (sql_eq (alert_shipment_id (row_data row)) sid
      \<and> alert_type (row_data row) = ty
      \<and> is_active row
      \<and> triggered_at row > t - 3600)"

definition create_alert ::
  "alert_manager \<Rightarrow> alert_store \<Rightarrow> clock \<Rightarrow> alert_data \<Rightarrow> bool \<times> alert_store \<times> clock" where
  "create_alert am store dbclk a =
     (if database_url am = None \<or> database_url am = Some [] then (False, store, dbclk)
      else if \<not> accepts store a then (False, store, dbclk)
      else (case now dbclk of (t, dbclk1) \<Rightarrow>
        if \<exists>row \<in> set (alerts store).
              similar_active t (alert_shipment_id a) (alert_type a) row
        then (False, store, dbclk1)
        else (True, store\<lparr>alerts := alerts store @
                [\<lparr>row_id = length (alerts store), row_data = a, triggered_at = t,
                  is_active = True, resolved_at = None, resolved_by = None\<rparr>]\<rparr>, dbclk1)))"

text \<open>
  The two f-strings of \<open>trigger_alerts\<close> are parameters: how Python prints the
  shipment identifier, the probability as a percentage and the minutes.
\<close>

record formatting =
  format_title :: "pyval \<Rightarrow> string"
  format_message :: "real \<Rightarrow> int \<Rightarrow> string"

definition build_alert :: "formatting \<Rightarrow> prediction_result \<Rightarrow> alert_data" where
  "build_alert fmt prediction =
     \<lparr>alert_shipment_id = shipment_id prediction,
      alert_type = ''delay_prediction'',
      severity = (if delay_probability prediction \<ge> 0.8 then ''High'' else ''Medium''),
      title = format_title fmt (shipment_id prediction),
      message = format_message fmt (delay_probability prediction)
                  (estimated_delay_minutes prediction),
      metadata = prediction\<rparr>"

text \<open>
  The body of the loop of \<open>trigger_alerts\<close>: the decision for one prediction. The
  result says whether an alert was created.
\<close>

definition decide ::
  "formatting \<Rightarrow> alert_manager \<Rightarrow> real \<Rightarrow> alert_store \<Rightarrow> clock \<Rightarrow> prediction_result
     \<Rightarrow> bool \<times> alert_store \<times> clock" where
  "decide fmt am threshold store dbclk prediction =
     (if delay_probability prediction \<ge> threshold
      then create_alert am store dbclk (build_alert fmt prediction)
      else (False, store, dbclk))"

fun trigger_alerts_loop ::
  "formatting \<Rightarrow> alert_manager \<Rightarrow> real \<Rightarrow> alert_store \<Rightarrow> clock \<Rightarrow> prediction_result list
     \<Rightarrow> nat \<Rightarrow> nat \<times> alert_store \<times> clock" where
  "trigger_alerts_loop fmt am threshold store dbclk [] alert_count =
     (alert_count, store, dbclk)"
| "trigger_alerts_loop fmt am threshold store dbclk (prediction # rest) alert_count =
     (case decide fmt am threshold store dbclk prediction of
        (created, store1, dbclk1) \<Rightarrow>
          trigger_alerts_loop fmt am threshold store1 dbclk1 rest
            (if created then alert_count + 1 else alert_count))"

definition trigger_alerts ::
  "formatting \<Rightarrow> alert_manager \<Rightarrow> real \<Rightarrow> alert_store \<Rightarrow> clock \<Rightarrow> prediction_result list
     \<Rightarrow> nat \<times> alert_store \<times> clock" where
  "trigger_alerts fmt am threshold store dbclk predictions =
     (if predictions = [] then (0, store, dbclk)
      else trigger_alerts_loop fmt am threshold store dbclk predictions 0)"

section \<open>Training (ml/train_model.py)\<close>

record training_row =
  tr_shipment_id :: string
  origin :: string
  destination :: string
  distance_remaining_km :: int
  vehicle_speed_kmph :: real
  weather :: string
  traffic_level :: string
  timestamp :: int
  eta :: real
  updated_at :: real
  is_delayed :: nat

text \<open>The label lists of the synthetic generator.\<close>

definition weather_conditions :: "string list" where
  "weather_conditions = [''Clear'', ''Rain'', ''Snow'', ''Fog'', ''Storm'']"

definition traffic_levels :: "string list" where
  "traffic_levels = [''Light'', ''Moderate'', ''Heavy'', ''Very Heavy'']"

text \<open>
  The loop \<open>for i in range(n_samples)\<close> of the generator, with \<open>k\<close> iterations
  left. An iteration draws its values from numpy's generator, which is seeded on entry, so
  that the draws depend on the iteration alone; it reads the clock once, for the timestamp,
  and appends one row. What the row holds is the parameter \<open>row_of\<close>: \<open>row_of i t\<close>
  is the row that iteration \<open>i\<close> builds when the clock reads \<open>t\<close>.
\<close>

fun synthetic_loop ::
  "(nat \<Rightarrow> int \<Rightarrow> training_row) \<Rightarrow> clock \<Rightarrow> nat \<Rightarrow> nat \<Rightarrow> training_row list
     \<Rightarrow> training_row list \<times> clock" where
  "synthetic_loop row_of clk i 0 data = (data, clk)"
| "synthetic_loop row_of clk i (Suc k) data =
     (case now clk of (t, clk1) \<Rightarrow>
        synthetic_loop row_of clk1 (Suc i) k (data @ [row_of i t]))"

definition generate_synthetic_training_data ::
  "(nat \<Rightarrow> int \<Rightarrow> training_row) \<Rightarrow> clock \<Rightarrow> nat \<Rightarrow> training_row list \<times> clock" where
  "generate_synthetic_training_data row_of clk n_samples =
     synthetic_loop row_of clk 0 n_samples []"

text \<open>
  \<open>load_training_data\<close>: \<open>query\<close> is the outcome of connecting and running the
  query, a frame or an exception.
\<close>

definition load_training_data ::
  "(exn + training_row list) \<Rightarrow> (nat \<Rightarrow> int \<Rightarrow> training_row) \<Rightarrow> clock
     \<Rightarrow> training_row list \<times> clock" where
  "load_training_data query row_of clk =
     (case query of
        Inr df \<Rightarrow>
          (if length df < 100 then generate_synthetic_training_data row_of clk 5000
           else (df, clk))
      | Inl e \<Rightarrow> generate_synthetic_training_data row_of clk 5000)"

text \<open>
  The trainer object. Its scaler and classifier are fitted by scikit-learn, which is the
  parameter \<open>fit\<close> below: from the training frame and the fitted encoders to the
  fitted scaler and the best estimator of the grid search, or an exception.
\<close>

record trainer =
  t_model :: "(fval list \<Rightarrow> exn + real) option"
  t_feature_encoders :: "string \<rightharpoonup> label_encoder"
  t_scaler :: "cell list \<Rightarrow> exn + fval list"
  t_feature_columns :: "string list"

type_synonym sklearn_fit =
  "training_row list \<Rightarrow> (string \<rightharpoonup> label_encoder)
     \<Rightarrow> exn + (cell list \<Rightarrow> exn + fval list) \<times> (fval list \<Rightarrow> exn + real)"

definition unfitted_scaler :: "cell list \<Rightarrow> exn + fval list" where
  "unfitted_scaler feats = Inl (LibraryError ''This StandardScaler instance is not fitted yet'')"

definition init_trainer :: trainer where
  "init_trainer =
     \<lparr>t_model = None, t_feature_encoders = Map.empty, t_scaler = unfitted_scaler,
      t_feature_columns =
        [''distance_remaining_km'', ''vehicle_speed_kmph'', ''weather_encoded'',
         ''traffic_level_encoded'', ''hour_of_day'', ''day_of_week'', ''is_weekend'',
         ''origin_risk_score'', ''destination_risk_score'', ''route_complexity'']\<rparr>"

text \<open>\<open>LabelEncoder.fit\<close>: the distinct labels, sorted.\<close>

definition fit_encoder :: "string list \<Rightarrow> label_encoder" where
  "fit_encoder labels = \<lparr>classes = map PStr (sort (remdups labels))\<rparr>"

text \<open>
  The encoding loop of \<open>engineer_features\<close>: a column without an encoder gets a newly
  fitted one; with an encoder, every label of the column must be in its classes.
\<close>

definition engineer_column ::
  "trainer \<Rightarrow> string \<Rightarrow> string list \<Rightarrow> exn + trainer" where
  "engineer_column tr col labels =
     (case t_feature_encoders tr col of
        None \<Rightarrow> Inr (tr\<lparr>t_feature_encoders := (t_feature_encoders tr)(col \<mapsto> fit_encoder labels)\<rparr>)
      | Some encoder \<Rightarrow>
          (if \<forall>l \<in> set labels. PStr l \<in> set (classes encoder) then Inr tr
           else Inl (ValueError ''y contains previously unseen labels'')))"

definition engineer_features :: "trainer \<Rightarrow> training_row list \<Rightarrow> exn + trainer" where
  "engineer_features tr df =
     (case engineer_column tr ''weather'' (map weather df) of
        Inl e \<Rightarrow> Inl e
      | Inr tr1 \<Rightarrow> engineer_column tr1 ''traffic_level'' (map traffic_level df))"

definition train_model :: "sklearn_fit \<Rightarrow> trainer \<Rightarrow> training_row list \<Rightarrow> exn + trainer" where
  "train_model fit tr df =
     (case engineer_features tr df of
        Inl e \<Rightarrow> Inl e
      | Inr tr1 \<Rightarrow>
          (case fit df (t_feature_encoders tr1) of
             Inl e \<Rightarrow> Inl e
           | Inr (sc, m) \<Rightarrow> Inr (tr1\<lparr>t_scaler := sc, t_model := Some m\<rparr>)))"

text \<open>
  \<open>os.path.dirname\<close>: the path up to its last slash, without trailing slashes unless
  it consists of slashes only.
\<close>

definition dirname :: "string \<Rightarrow> string" where
  "dirname p =
     (let head = rev (dropWhile (\<lambda>c. c \<noteq> CHR ''/'') (rev p))
      in if head \<noteq> [] \<and> \<not> list_all (\<lambda>c. c = CHR ''/'') head
         then rev (dropWhile (\<lambda>c. c = CHR ''/'') (rev head))
         else head)"

text \<open>The dict that \<open>save_model\<close> hands to \<open>joblib.dump\<close>.\<close>

definition bundle_of :: "trainer \<Rightarrow> int \<Rightarrow> model_data" where
  "bundle_of tr t =
     \<lparr>md_model = Some (t_model tr),
      md_scaler = Some (t_scaler tr),
      md_feature_encoders = Some (t_feature_encoders tr),
      md_feature_columns = Some (t_feature_columns tr),
      md_trained_at = Some t,
      md_version = Some ''1.0''\<rparr>"

text \<open>
  \<open>save_model\<close>: \<open>os.makedirs\<close> of the path's directory comes first and raises
  \<open>FileNotFoundError\<close> when the path has no directory part; then the bundle is built,
  which reads the clock, and written. A directory that can be named can be created and
  written to: permissions and files in the way are not modelled.
\<close>

definition save_model ::
  "trainer \<Rightarrow> string \<Rightarrow> filesystem \<Rightarrow> clock \<Rightarrow> (exn + filesystem) \<times> clock" where
  "save_model tr model_path fs clk =
     (if dirname model_path = []
      then (Inl (FileNotFoundError
                  (''[Errno 2] No such file or directory: '' @ [CHR 0x27, CHR 0x27])), clk)
      else (case now clk of (t, clk1) \<Rightarrow>
              (Inr (fs(model_path \<mapsto> Pickled (bundle_of tr t))), clk1)))"

text \<open>\<open>main\<close>: load the data, train, save.\<close>

definition main ::
  "sklearn_fit \<Rightarrow> (exn + training_row list) \<Rightarrow> (nat \<Rightarrow> int \<Rightarrow> training_row) \<Rightarrow> string
     \<Rightarrow> filesystem \<Rightarrow> clock \<Rightarrow> (exn + filesystem) \<times> clock" where
  "main fit query row_of model_path fs clk =
     (case load_training_data query row_of clk of (df, clk1) \<Rightarrow>
        (case train_model fit init_trainer df of
           Inl e \<Rightarrow> (Inl e, clk1)
         | Inr tr \<Rightarrow> save_model tr model_path fs clk1))"

section \<open>Names used by the statements\<close>

text \<open>
  The columns that \<open>prepare_features\<close> computes itself, whatever the observation holds.
\<close>

definition computed_names :: "string set" where
  "computed_names = {''distance_remaining_km'', ''vehicle_speed_kmph'', ''weather_encoded'',
     ''traffic_level_encoded'', ''timestamp'', ''hour_of_day'', ''day_of_week'', ''is_weekend'',
     ''origin_risk_score'', ''destination_risk_score'', ''route_complexity''}"

text \<open>
  The estimate as the specification words it, for comparison with \<open>estimated_delay\<close>:
  rounded to the nearest integer.
\<close>

definition spec_estimated_delay :: "real \<Rightarrow> real \<Rightarrow> int" where
  "spec_estimated_delay p d = (if p \<le> 0.5 then 0 else round (p * 120 * min (d / 1000) 2))"

section \<open>Concrete inputs\<close>

text \<open>
  A pandas whose date parser returns 2024-01-15 14:30 (a Monday), an engine whose
  classifier returns a fixed probability and whose encoders are fitted on the generator's
  label lists, the shipment of the repository's tests, an observation without distance,
  and a clock that advances one second per reading.
\<close>

definition example_pandas :: pandas where
  "example_pandas = \<lparr>str_to_numeric = (\<lambda>s. NaN), to_datetime = (\<lambda>v. Inr (Some 1705329000))\<rparr>"

definition example_scaler :: "cell list \<Rightarrow> exn + fval list" where
  "example_scaler feats = Inr (map (\<lambda>c. case c of Flt f \<Rightarrow> f | _ \<Rightarrow> NaN) feats)"

definition example_engine :: "real \<Rightarrow> delay_predictor" where
  "example_engine p =
     \<lparr>model = Some (\<lambda>v. Inr p), scaler = example_scaler,
      feature_encoders = [''weather'' \<mapsto> fit_encoder weather_conditions,
                          ''traffic_level'' \<mapsto> fit_encoder traffic_levels],
      feature_columns = t_feature_columns init_trainer\<rparr>"

definition example_shipment :: "real \<Rightarrow> observation" where
  "example_shipment d = map_of
     [(''shipment_id'', PStr ''S1''), (''distance_remaining_km'', PNum d),
      (''vehicle_speed_kmph'', PNum 45.5), (''weather'', PStr ''Rain''),
      (''traffic_level'', PStr ''Heavy''), (''timestamp'', PStr ''2024-01-15T14:30:00Z'')]"

definition example_incomplete :: observation where
  "example_incomplete = map_of [(''shipment_id'', PStr ''S2''), (''weather'', PStr ''Hail'')]"

definition example_clock :: clock where
  "example_clock n = 1705329000 + int n"

text \<open>
  An observation without a timestamp, a clock two hours ahead of the first, a schema with
  a column that no observation and no computation provides, a computed column, a raw field
  of the observation and a computed float, the message of the not-loaded error, and a file
  system with no artifact.
\<close>

definition example_untimed :: observation where
  "example_untimed = map_of
     [(''shipment_id'', PStr ''S3''), (''distance_remaining_km'', PNum 500),
      (''vehicle_speed_kmph'', PNum 70), (''weather'', PStr ''Clear''),
      (''traffic_level'', PStr ''Light'')]"


definition example_schema :: "string list" where
  "example_schema = [''cargo_weight'', ''hour_of_day'', ''weather'', ''route_complexity'']"

definition not_loaded :: string where
  "not_loaded = ''Model not loaded. Please load a trained model first.''"

definition no_files :: filesystem where
  "no_files = Map.empty"








text \<open>
  A fit that succeeds when both labels occur in the training frame, as the evaluation in
  \<open>train_model\<close> needs; a row of real history that was on time and one that was
  delayed, a history of 100 such rows, a generator that yields the same two kinds of row
  with the timestamp a day before the reading of the clock, the trainer's default artifact
  path, and the bundle a run of \<open>main\<close> left at a path, if it left one.
\<close>

definition example_fit :: sklearn_fit where
  "example_fit df encoders =
     (if list_ex (\<lambda>r. is_delayed r = 0) df \<and> list_ex (\<lambda>r. is_delayed r = 1) df
      then Inr (example_scaler, \<lambda>v. Inr 0.5)
      else Inl (ValueError ''Only one class present in y_true''))"

definition example_row :: "nat \<Rightarrow> training_row" where
  "example_row delayed =
     (if delayed = 0
      then \<lparr>tr_shipment_id = ''SHP000001'', origin = ''Chicago'', destination = ''Dallas'',
            distance_remaining_km = 1200, vehicle_speed_kmph = 62.5, weather = ''Clear'',
            traffic_level = ''Light'', timestamp = 1705329000, eta = 1705398120,
            updated_at = 1705398000, is_delayed = 0\<rparr>
      else \<lparr>tr_shipment_id = ''SHP000002'', origin = ''Denver'', destination = ''Seattle'',
            distance_remaining_km = 2100, vehicle_speed_kmph = 28, weather = ''Storm'',
            traffic_level = ''Heavy'', timestamp = 1705329000, eta = 1705598000,
            updated_at = 1705641200, is_delayed = 1\<rparr>)"

definition example_history :: "training_row list" where
  "example_history = concat (replicate 50 [example_row 0, example_row 1])"

definition example_row_of :: "nat \<Rightarrow> int \<Rightarrow> training_row" where
  "example_row_of i t = (example_row (i mod 2))\<lparr>timestamp := t - 86400\<rparr>"

definition example_model_path :: string where
  "example_model_path = ''./ml/models/delay_predictor.joblib''"

definition saved_bundle :: "(exn + filesystem) \<times> clock \<Rightarrow> string \<Rightarrow> model_data option" where
  "saved_bundle run model_path =
     (case fst run of
        Inl e \<Rightarrow> None
      | Inr fs \<Rightarrow> (case fs model_path of Some (Pickled md) \<Rightarrow> Some md | _ \<Rightarrow> None))"

section \<open>Feature building: auxiliary facts\<close>

lemma fill_missing_apply:
  "fill_missing cols df c =
     (if c \<in> set cols then (case df c of None \<Rightarrow> Some (Flt (Num 0)) | Some v \<Rightarrow> Some v)
      else df c)"
  unfolding fill_missing_def
  by (induction cols arbitrary: df) (auto split: option.splits)

lemma select_columns_present:
  "\<forall>c \<in> set cols. df c \<noteq> None \<Longrightarrow> select_columns df cols = Inr (map (\<lambda>c. the (df c)) cols)"
  by (induction cols) auto

lemma select_fill:
  "select_columns (fill_missing cols df) cols =
     Inr (map (\<lambda>c. case df c of None \<Rightarrow> Flt (Num 0) | Some v \<Rightarrow> v) cols)"
proof -
  have "\<forall>c \<in> set cols. fill_missing cols df c \<noteq> None"
    by (simp add: fill_missing_apply split: option.splits)
  then have "select_columns (fill_missing cols df) cols =
      Inr (map (\<lambda>c. the (fill_missing cols df c)) cols)"
    by (rule select_columns_present)
  also have "map (\<lambda>c. the (fill_missing cols df c)) cols =
      map (\<lambda>c. case df c of None \<Rightarrow> Flt (Num 0) | Some v \<Rightarrow> v) cols"
    by (rule map_cong) (auto simp: fill_missing_apply split: option.splits)
  finally show ?thesis .
qed

lemma index_of_member: "x \<in> set xs \<Longrightarrow> \<exists>i. index_of x xs = Some i \<and> i < length xs \<and> xs ! i = x"
  by (induction xs) auto

lemma index_of_hd: "index_of x (x # xs) = Some 0"
  by simp

lemma encode_column_total:
  "\<exists>c. encode_column eng obs col = Inr (Flt (Num c))"
  unfolding encode_column_def transform_def
  using index_of_member
  by (fastforce split: option.splits)

lemma timestamp_column_present:
  "obs ''timestamp'' = Some x \<Longrightarrow> timestamp_column pd clk obs = (to_datetime pd x, clk)"
  by (simp add: timestamp_column_def)

lemma timestamp_column_absent:
  "obs ''timestamp'' = None \<Longrightarrow>
     timestamp_column pd clk obs = (Inr (Some (clk 0)), \<lambda>n. clk (Suc n))"
  by (simp add: timestamp_column_def now_def)

lemma prepare_features_returns:
  assumes "obs ''distance_remaining_km'' \<noteq> None" and "obs ''vehicle_speed_kmph'' \<noteq> None"
    and "\<forall>x. obs ''timestamp'' = Some x \<longrightarrow> (\<exists>ts. to_datetime pd x = Inr ts)"
  shows "\<exists>v clk'. prepare_features pd eng clk obs = (Inr v, clk')"
proof -
  obtain w where w: "encode_column eng obs ''weather'' = Inr (Flt (Num w))"
    using encode_column_total by blast
  obtain t where t: "encode_column eng obs ''traffic_level'' = Inr (Flt (Num t))"
    using encode_column_total by blast
  obtain ts clk' where ts: "timestamp_column pd clk obs = (Inr ts, clk')"
  proof (cases "obs ''timestamp''")
    case None
    then show ?thesis using that by (simp add: timestamp_column_absent)
  next
    case (Some x)
    with assms(3) obtain ts where "to_datetime pd x = Inr ts" by blast
    with Some show ?thesis using that by (simp add: timestamp_column_present)
  qed
  from assms(1,2) w t ts show ?thesis
    unfolding prepare_features_def
    by (auto simp: select_fill)
qed



lemma index_of_hd_zero:
  "index_of x xs = Some i \<Longrightarrow> xs \<noteq> [] \<and> x = hd xs \<longrightarrow> i = 0"
  by (cases xs) (simp_all split: if_splits)

lemma encode_column_known:
  assumes "obs col = Some x" and "feature_encoders eng col = Some encoder"
    and "x \<in> set (classes encoder)" and "index_of x (classes encoder) = Some i"
  shows "encode_column eng obs col = Inr (Flt (Num (real i)))"
  using assms by (simp add: encode_column_def transform_def)

lemma encode_column_unknown:
  assumes "obs col = Some x" and "feature_encoders eng col = Some encoder"
    and "x \<notin> set (classes encoder)"
  shows "encode_column eng obs col = Inr (Flt (Num (real 0)))"
  using assms by (simp add: encode_column_def)

lemma encode_column_no_field:
  assumes "obs col = None \<or> feature_encoders eng col = None"
  shows "encode_column eng obs col = Inr (Flt (Num (real 0)))"
  using assms by (cases "obs col") (auto simp: encode_column_def)

lemma prepare_features_frame:
  assumes "prepare_features pd eng clk obs = (Inr v, clk')"
  shows "\<exists>dv sv w t ts.
           obs ''distance_remaining_km'' = Some dv \<and> obs ''vehicle_speed_kmph'' = Some sv
         \<and> encode_column eng obs ''weather'' = Inr w
         \<and> encode_column eng obs ''traffic_level'' = Inr t
         \<and> timestamp_column pd clk obs = (Inr ts, clk')
         \<and> v = map (\<lambda>c. case computed_frame obs (fillna 1000 (to_numeric pd dv))
                               (fillna 60 (to_numeric pd sv)) w t ts c of
                           None \<Rightarrow> Flt (Num 0) | Some x \<Rightarrow> x) (feature_columns eng)"
proof -
  obtain dv where dv: "obs ''distance_remaining_km'' = Some dv"
    by (cases "obs ''distance_remaining_km''") (use assms in \<open>simp_all add: prepare_features_def\<close>)
  obtain sv where sv: "obs ''vehicle_speed_kmph'' = Some sv"
    by (cases "obs ''vehicle_speed_kmph''")
      (use assms dv in \<open>simp_all add: prepare_features_def\<close>)
  obtain w where w: "encode_column eng obs ''weather'' = Inr w"
    by (cases "encode_column eng obs ''weather''")
      (use assms dv sv in \<open>simp_all add: prepare_features_def\<close>)
  obtain t where t: "encode_column eng obs ''traffic_level'' = Inr t"
    by (cases "encode_column eng obs ''traffic_level''")
      (use assms dv sv w in \<open>simp_all add: prepare_features_def\<close>)
  obtain r c where rc: "timestamp_column pd clk obs = (r, c)"
    by (cases "timestamp_column pd clk obs")
  obtain ts where ts: "r = Inr ts"
    by (cases r) (use assms dv sv w t rc in \<open>simp_all add: prepare_features_def\<close>)
  from assms dv sv w t rc ts
  have c: "c = clk'"
    and v: "v = map (\<lambda>c. case computed_frame obs (fillna 1000 (to_numeric pd dv))
                               (fillna 60 (to_numeric pd sv)) w t ts c of
                           None \<Rightarrow> Flt (Num 0) | Some x \<Rightarrow> x) (feature_columns eng)"
    by (simp_all add: prepare_features_def select_fill)
  from rc ts c have "timestamp_column pd clk obs = (Inr ts, clk')" by simp
  with dv sv w t v show ?thesis by (intro exI conjI)
qed

lemma computed_frame_columns:
  "computed_frame obs d s w t ts ''distance_remaining_km'' = Some (Flt d)"
  "computed_frame obs d s w t ts ''vehicle_speed_kmph'' = Some (Flt s)"
  "computed_frame obs d s w t ts ''weather_encoded'' = Some w"
  "computed_frame obs d s w t ts ''traffic_level_encoded'' = Some t"
  "computed_frame obs d s w t ts ''timestamp'' = Some (Dt ts)"
  "computed_frame obs d s w t ts ''hour_of_day'' = Some (Flt (dt_hour ts))"
  "computed_frame obs d s w t ts ''day_of_week'' = Some (Flt (dt_dayofweek ts))"
  "computed_frame obs d s w t ts ''is_weekend''
     = Some (Flt (Num (if fge (dt_dayofweek ts) 5 then 1 else 0)))"
  "computed_frame obs d s w t ts ''origin_risk_score'' = Some (Flt (Num (1 / 10)))"
  "computed_frame obs d s w t ts ''destination_risk_score'' = Some (Flt (Num (1 / 10)))"
  "computed_frame obs d s w t ts ''route_complexity''
     = Some (Flt (fdiv (fdiv d (fadd s (Num 1))) (Num 100)))"
  by (simp_all add: computed_frame_def Let_def)

lemma computed_frame_raw:
  "c \<notin> computed_names \<Longrightarrow> computed_frame obs d s w t ts c = map_option Obj (obs c)"
  by (simp add: computed_frame_def computed_names_def Let_def)

section \<open>Single predictions: auxiliary facts\<close>

lemma predict_delay_try_Inr:
  assumes "predict_delay_try pd eng m clk obs = (Inr (p, r), clk')"
  shows "delay_probability r = p \<and> risk_level r = risk_categorization p
       \<and> estimated_delay p obs = Inr (estimated_delay_minutes r) \<and> error r = None
       \<and> shipment_id r = get obs ''shipment_id'' \<and> obs ''distance_remaining_km'' \<noteq> None"
  using assms unfolding predict_delay_try_def prepare_features_def
  by (auto split: option.splits sum.splits prod.splits)

lemma predict_delay_Inr:
  assumes "predict_delay pd eng clk obs = (Inr (p, r), clk')"
  shows "(\<exists>m. model eng = Some m \<and> predict_delay_try pd eng m clk obs = (Inr (p, r), clk'))
       \<or> (\<exists>m e clk1. model eng = Some m \<and> predict_delay_try pd eng m clk obs = (Inl e, clk1)
             \<and> p = 0.5 \<and> r = degraded (get obs ''shipment_id'') (clk1 0) e)"
  using assms unfolding predict_delay_def now_def
  by (auto split: option.splits sum.splits prod.splits)

lemma degraded_fields:
  "delay_probability (degraded sid t e) = 0.5" "risk_level (degraded sid t e) = Medium"
  "estimated_delay_minutes (degraded sid t e) = 60" "error (degraded sid t e) = Some (str_exn e)"
  "shipment_id (degraded sid t e) = sid"
  by (simp_all add: degraded_def)

lemma risk_categorization_iff:
  "(risk_categorization p = High \<longleftrightarrow> 0.7 \<le> p)"
  "(risk_categorization p = Medium \<longleftrightarrow> 0.4 \<le> p \<and> p < 0.7)"
  "(risk_categorization p = Low \<longleftrightarrow> p < 0.4)"
  by (auto simp: risk_categorization_def)

lemma estimated_delay_Inr:
  assumes "estimated_delay p obs = Inr n" and "obs ''distance_remaining_km'' \<noteq> None"
  shows "(p \<le> 0.5 \<longrightarrow> n = 0)
       \<and> (0.5 < p \<longrightarrow> (\<exists>d. obs ''distance_remaining_km'' = Some (PNum d)
                              \<and> n = py_int (fl (fl (fl p * 120) * min (fl (fl d / 1000)) 2))))"
  using assms unfolding estimated_delay_def distance_factor_def get_default_def
  by (auto split: if_splits option.splits pyval.splits sum.splits)

lemma py_int_nonneg: "0 \<le> x \<Longrightarrow> 0 \<le> py_int x"
  by (simp add: py_int_def)

lemmas example_defs = example_pandas_def example_engine_def example_shipment_def
  example_scaler_def example_clock_def example_incomplete_def init_trainer_def
  fit_encoder_def weather_conditions_def traffic_levels_def

lemmas prepare_features_unfold = prepare_features_def [unfolded select_fill]

lemmas engine_defs = predict_delay_def predict_delay_try_def prepare_features_unfold
  encode_column_def transform_def timestamp_column_def now_def
  computed_frame_def Let_def estimated_delay_def distance_factor_def get_default_def get_def
  py_int_def risk_categorization_def degraded_def

section \<open>Floating-point evaluation: auxiliary facts\<close>

lemma pow2_powr: "pow2 e = 2 powr of_int e"
  by (simp add: pow2_def powr_real_of_int field_simps)

lemma pow2_pos: "0 < pow2 e"
  by (simp add: pow2_powr)

lemma binade_unique:
  assumes "pow2 b \<le> \<bar>x\<bar>" and "\<bar>x\<bar> < pow2 (b + 1)"
  shows "\<lfloor>log 2 \<bar>x\<bar>\<rfloor> = b"
proof -
  have "0 < \<bar>x\<bar>" using assms(1) pow2_pos [of b] by linarith
  then show ?thesis
    using assms unfolding pow2_powr by (subst floor_log_eq_powr_iff) simp_all
qed

lemma find_unique:
  assumes "b \<in> set xs" and "P b" and "\<And>c. P c \<Longrightarrow> c = b"
  shows "find P xs = Some b"
  using assms(1)
proof (induction xs)
  case Nil
  then show ?case by simp
next
  case (Cons a xs)
  show ?case
  proof (cases "P a")
    case True
    then have "a = b" by (rule assms(3))
    with True show ?thesis by simp
  next
    case False
    with assms(2) have "a \<noteq> b" by blast
    with Cons.prems have "b \<in> set xs" by simp
    then have "find P xs = Some b" by (rule Cons.IH)
    with False show ?thesis by simp
  qed
qed

lemma binade_eq:
  assumes "pow2 b \<le> \<bar>x\<bar>" and "\<bar>x\<bar> < pow2 (b + 1)" and "- 1022 \<le> b" and "b \<le> 1023"
  shows "binade x = b"
proof -
  have "find (\<lambda>b. pow2 b \<le> \<bar>x\<bar> \<and> \<bar>x\<bar> < pow2 (b + 1)) [- 1022..1023] = Some b"
  proof (rule find_unique)
    show "b \<in> set [- 1022..1023]"
      using assms(3,4) by (simp only: set_upto atLeastAtMost_iff)
    show "pow2 b \<le> \<bar>x\<bar> \<and> \<bar>x\<bar> < pow2 (b + 1)" using assms(1,2) by simp
    fix c assume "pow2 c \<le> \<bar>x\<bar> \<and> \<bar>x\<bar> < pow2 (c + 1)"
    then have "\<lfloor>log 2 \<bar>x\<bar>\<rfloor> = c" using binade_unique by blast
    moreover have "\<lfloor>log 2 \<bar>x\<bar>\<rfloor> = b" using assms(1,2) by (rule binade_unique)
    ultimately show "c = b" by simp
  qed
  then show ?thesis by (simp only: binade_def option.simps)
qed

lemma fl_at:
  assumes "pow2 b \<le> \<bar>x\<bar>" and "\<bar>x\<bar> < pow2 (b + 1)" and "- 1022 \<le> b" and "b \<le> 1023"
  shows "fl x = of_int (round_even (x / pow2 (b - 52))) * pow2 (b - 52)"
proof -
  have "x \<noteq> 0" using assms(1) pow2_pos [of b] by auto
  then show ?thesis by (simp add: fl_def binade_eq [OF assms])
qed

lemma round_even_nonneg: "0 \<le> y \<Longrightarrow> 0 \<le> round_even y"
  by (simp add: round_even_def Let_def)

lemma fl_nonneg: "0 \<le> x \<Longrightarrow> 0 \<le> fl x"
  using pow2_pos [of "binade x - 52"] by (simp add: fl_def round_even_nonneg)

lemmas fl_eval = pow2_def round_even_def Let_def

lemma delay_09_2000:
  "py_int (fl (fl (fl (9 / 10) * 120) * min (fl (fl 2000 / 1000)) 2)) = 216"
proof -
  have a: "fl (9 / 10) = 8106479329266893 / 2 ^ 53"
    by (subst fl_at [of "- 1"]) (simp_all add: fl_eval)
  have b: "fl (8106479329266893 / 2 ^ 53 * 120) = 108"
    by (subst fl_at [of 6]) (simp_all add: fl_eval)
  have c: "fl 2000 = 2000"
    by (subst fl_at [of 10]) (simp_all add: fl_eval)
  have d: "fl (2000 / 1000) = 2"
    by (subst fl_at [of 1]) (simp_all add: fl_eval)
  have e: "min 2 2 = (2::real)" by simp
  have f: "fl (108 * 2) = 216"
    by (subst fl_at [of 7]) (simp_all add: fl_eval)
  have g: "py_int 216 = 216" by (simp add: py_int_def)
  show ?thesis unfolding a b c d e f g ..
qed

lemma delay_075_700:
  "py_int (fl (fl (fl (75 / 100) * 120) * min (fl (fl 700 / 1000)) 2)) = 62"
proof -
  have a: "fl (75 / 100) = 3 / 4"
    by (subst fl_at [of "- 1"]) (simp_all add: fl_eval)
  have b: "fl (3 / 4 * 120) = 90"
    by (subst fl_at [of 6]) (simp_all add: fl_eval)
  have c: "fl 700 = 700"
    by (subst fl_at [of 9]) (simp_all add: fl_eval)
  have d: "fl (700 / 1000) = 6305039478318694 / 2 ^ 53"
    by (subst fl_at [of "- 1"]) (simp_all add: fl_eval)
  have e: "min (6305039478318694 / 2 ^ 53) 2 = (6305039478318694 / 2 ^ 53 :: real)" by simp
  have f: "fl (90 * (6305039478318694 / 2 ^ 53)) = 8866461766385663 / 2 ^ 47"
    by (subst fl_at [of 5]) (simp_all add: fl_eval)
  have g: "py_int (8866461766385663 / 2 ^ 47) = 62" by (simp add: py_int_def)
  show ?thesis unfolding a b c d e f g ..
qed

lemma delay_075_1010:
  "py_int (fl (fl (fl (75 / 100) * 120) * min (fl (fl 1010 / 1000)) 2)) = 90"
proof -
  have a: "fl (75 / 100) = 3 / 4"
    by (subst fl_at [of "- 1"]) (simp_all add: fl_eval)
  have b: "fl (3 / 4 * 120) = 90"
    by (subst fl_at [of 6]) (simp_all add: fl_eval)
  have c: "fl 1010 = 1010"
    by (subst fl_at [of 9]) (simp_all add: fl_eval)
  have d: "fl (1010 / 1000) = 4548635623644201 / 2 ^ 52"
    by (subst fl_at [of 0]) (simp_all add: fl_eval)
  have e: "min (4548635623644201 / 2 ^ 52) 2 = (4548635623644201 / 2 ^ 52 :: real)" by simp
  have f: "fl (90 * (4548635623644201 / 2 ^ 52)) = 6396518845749658 / 2 ^ 46"
    by (subst fl_at [of 6]) (simp_all add: fl_eval)
  have g: "py_int (6396518845749658 / 2 ^ 46) = 90" by (simp add: py_int_def)
  show ?thesis unfolding a b c d e f g ..
qed

lemma delay_075_neg:
  "py_int (fl (fl (fl (75 / 100) * 120) * min (fl (fl (- 1000) / 1000)) 2)) = - 90"
proof -
  have a: "fl (75 / 100) = 3 / 4"
    by (subst fl_at [of "- 1"]) (simp_all add: fl_eval)
  have b: "fl (3 / 4 * 120) = 90"
    by (subst fl_at [of 6]) (simp_all add: fl_eval)
  have c: "fl (- 1000) = - 1000"
    by (subst fl_at [of 9]) (simp_all add: fl_eval)
  have d: "fl (- 1000 / 1000) = - 1"
    by (subst fl_at [of 0]) (simp_all add: fl_eval)
  have e: "min (- 1) 2 = (- 1::real)" by simp
  have f: "fl (90 * - 1) = - 90"
    by (subst fl_at [of 6]) (simp_all add: fl_eval)
  have g: "py_int (- 90) = - 90" by (simp add: py_int_def)
  show ?thesis unfolding a b c d e f g ..
qed

lemma example_estimate:
  "estimated_delay_minutes (snd (projr (fst (predict_delay example_pandas (example_engine p)
       example_clock (example_shipment d))))) =
     (if 0.5 < p then py_int (fl (fl (fl p * 120) * min (fl (fl d / 1000)) 2)) else 0)"
  "error (snd (projr (fst (predict_delay example_pandas (example_engine p)
       example_clock (example_shipment d))))) = None"
  by (simp_all add: example_defs predict_delay_def predict_delay_try_def prepare_features_unfold
        estimated_delay_def distance_factor_def get_def get_default_def now_def Let_def
        encode_column_def timestamp_column_def computed_frame_def transform_def
        split: sum.splits)


lemma delay_nonneg:
  assumes "0 \<le> p" and "0 \<le> d"
  shows "0 \<le> py_int (fl (fl (fl p * 120) * min (fl (fl d / 1000)) 2))"
proof -
  have "0 \<le> fl p * 120" using fl_nonneg [OF assms(1)] by simp
  then have a: "0 \<le> fl (fl p * 120)" by (rule fl_nonneg)
  have "0 \<le> fl d / 1000" using fl_nonneg [OF assms(2)] by simp
  then have "0 \<le> fl (fl d / 1000)" by (rule fl_nonneg)
  then have b: "0 \<le> min (fl (fl d / 1000)) 2" by simp
  from a b have "0 \<le> fl (fl p * 120) * min (fl (fl d / 1000)) 2" by (rule mult_nonneg_nonneg)
  then have "0 \<le> fl (fl (fl p * 120) * min (fl (fl d / 1000)) 2)" by (rule fl_nonneg)
  then show ?thesis by (rule py_int_nonneg)
qed

section \<open>Batches and loading: auxiliary facts\<close>

lemma predict_batch_loop_append:
  "predict_batch_loop pd eng clk xs acc =
     (acc @ fst (predict_batch_loop pd eng clk xs []), snd (predict_batch_loop pd eng clk xs []))"
proof (induction xs arbitrary: clk acc)
  case Nil
  then show ?case by simp
next
  case (Cons x xs)
  obtain r clk1 where b: "batch_item pd eng clk x = (r, clk1)" by (cases "batch_item pd eng clk x")
  show ?case
    using Cons.IH [of clk1 "acc @ [r]"] Cons.IH [of clk1 "[r]"] b by simp
qed

lemma predict_batch_loop_Cons:
  "predict_batch_loop pd eng clk (x # xs) [] =
     (fst (batch_item pd eng clk x) # fst (predict_batch_loop pd eng (snd (batch_item pd eng clk x)) xs []),
      snd (predict_batch_loop pd eng (snd (batch_item pd eng clk x)) xs []))"
proof (cases "batch_item pd eng clk x")
  case (Pair r clk1)
  then show ?thesis
    using predict_batch_loop_append [of pd eng clk1 xs "[r]"] by simp
qed

lemma predict_batch_loop_length:
  "length (fst (predict_batch_loop pd eng clk xs [])) = length xs"
  by (induction xs arbitrary: clk) (simp_all add: predict_batch_loop_Cons del: predict_batch_loop.simps(2))

lemma predict_batch_loop_nth:
  "i < length xs \<Longrightarrow>
     fst (predict_batch_loop pd eng clk xs []) ! i =
       fst (batch_item pd eng (clock_after pd eng clk (take i xs)) (xs ! i))"
proof (induction xs arbitrary: clk i)
  case Nil
  then show ?case by simp
next
  case (Cons x xs)
  show ?case
  proof (cases i)
    case 0
    then show ?thesis by (simp add: predict_batch_loop_Cons del: predict_batch_loop.simps(2))
  next
    case (Suc k)
    with Cons.prems have "k < length xs" by simp
    from Cons.IH [OF this, of "snd (batch_item pd eng clk x)"] Suc show ?thesis
      by (simp add: predict_batch_loop_Cons del: predict_batch_loop.simps(2))
  qed
qed

lemma batch_item_unloaded:
  "model eng = None \<Longrightarrow>
     fst (batch_item pd eng clk s) =
       degraded (get_default s ''shipment_id'' (PStr ''unknown'')) (clk 0)
         (ValueError ''Model not loaded. Please load a trained model first.'')"
  by (simp add: batch_item_def predict_delay_def now_def)



lemmas batch_defs = predict_batch_def batch_item_def

lemma load_model_fails:
  "fs model_path = None \<or> fs model_path = Some Unreadable \<Longrightarrow>
     load_model fs model_path eng = (False, eng)"
  by (auto simp: load_model_def)

lemma init_predictor_unloaded:
  "fs model_path = None \<or> fs model_path = Some Unreadable \<Longrightarrow>
     model (init_predictor fs model_path) = None"
  by (auto simp: init_predictor_def load_model_def)

section \<open>Single predictions: the claims\<close>

text \<open>
  C6. Every result that \<open>predict_delay\<close> returns carries the probability it returns,
  and its risk level is High exactly when the probability is at least 0.7, Medium exactly
  when it is at least 0.4 and below 0.7, Low exactly when it is below 0.4. The boundaries
  0.7 and 0.4 belong to High and Medium.
\<close>

theorem risk_level_thresholds:
  assumes "predict_delay pd eng clk obs = (Inr (p, r), clk')"
  shows "delay_probability r = p
       \<and> (risk_level r = High \<longleftrightarrow> 0.7 \<le> p)
       \<and> (risk_level r = Medium \<longleftrightarrow> 0.4 \<le> p \<and> p < 0.7)
       \<and> (risk_level r = Low \<longleftrightarrow> p < 0.4)"
proof -
  from predict_delay_Inr [OF assms] have "delay_probability r = p \<and> risk_level r = risk_categorization p"
  proof (elim disjE exE conjE)
    fix m assume "predict_delay_try pd eng m clk obs = (Inr (p, r), clk')"
    from predict_delay_try_Inr [OF this] show ?thesis by simp
  next
    fix m e clk1 assume "p = 0.5" "r = degraded (get obs ''shipment_id'') (clk1 0) e"
    then show ?thesis by (simp add: degraded_fields risk_categorization_def)
  qed
  then show ?thesis by (simp add: risk_categorization_iff)
qed

theorem risk_level_thresholds_witness:
  "risk_level (snd (projr (fst (predict_delay example_pandas (example_engine 0.7) example_clock
       (example_shipment 2800))))) = High
   \<and> risk_level (snd (projr (fst (predict_delay example_pandas (example_engine 0.4) example_clock
       (example_shipment 2800))))) = Medium"
proof -
  obtain r clk' where e: "predict_delay example_pandas (example_engine 0.7) example_clock
       (example_shipment 2800) = (Inr (0.7, r), clk')"
    by (simp add: example_defs engine_defs)
  obtain r2 clk2 where e2: "predict_delay example_pandas (example_engine 0.4) example_clock
       (example_shipment 2800) = (Inr (0.4, r2), clk2)"
    by (simp add: example_defs engine_defs)
  from risk_level_thresholds [OF e] have "risk_level r = High" by simp
  moreover from risk_level_thresholds [OF e2] have "risk_level r2 = Medium" by simp
  ultimately show ?thesis using e e2 by simp
qed

text \<open>
  C3, as amended. A result without an error annotation has an estimated delay of 0
  whenever its probability is at most 0.5. A degraded result (error annotation set) has
  probability 0.5 and an estimated delay of 60 minutes.
\<close>

theorem no_delay_at_low_probability:
  assumes "predict_delay pd eng clk obs = (Inr (p, r), clk')"
  shows "(error r = None \<longrightarrow> delay_probability r \<le> 0.5 \<longrightarrow> estimated_delay_minutes r = 0)
       \<and> (error r \<noteq> None \<longrightarrow> delay_probability r = 0.5 \<and> estimated_delay_minutes r = 60)"
  using predict_delay_Inr [OF assms]
proof (elim disjE exE conjE)
  fix m assume "predict_delay_try pd eng m clk obs = (Inr (p, r), clk')"
  from predict_delay_try_Inr [OF this] show ?thesis
    using estimated_delay_Inr [of p obs "estimated_delay_minutes r"] by auto
next
  fix m e clk1 assume "r = degraded (get obs ''shipment_id'') (clk1 0) e"
  then show ?thesis by (simp add: degraded_fields)
qed

theorem no_delay_at_low_probability_witness:
  "error (snd (projr (fst (predict_delay example_pandas (example_engine 0.3) example_clock
       (example_shipment 2800))))) = None
   \<and> delay_probability (snd (projr (fst (predict_delay example_pandas (example_engine 0.3)
       example_clock (example_shipment 2800))))) \<le> 0.5
   \<and> estimated_delay_minutes (snd (projr (fst (predict_delay example_pandas (example_engine 0.3)
       example_clock (example_shipment 2800))))) = 0"
proof -
  obtain r clk' where e: "predict_delay example_pandas (example_engine 0.3) example_clock
       (example_shipment 2800) = (Inr (0.3, r), clk')"
    and r: "error r = None" "delay_probability r = 0.3"
    by (simp add: example_defs engine_defs)
  from no_delay_at_low_probability [OF e] r have "estimated_delay_minutes r = 0" by simp
  with e r show ?thesis by simp
qed

text \<open>
  C3 as stated fails on a degraded result: the observation without a distance field
  gives probability 0.5 and 60 minutes.
\<close>

theorem degraded_result_counterexample:
  "fst (predict_delay example_pandas (example_engine 0.9) example_clock example_incomplete)
     = Inr (0.5, degraded (PStr ''S2'') 1705329000 (KeyError ''distance_remaining_km''))
   \<and> delay_probability (degraded (PStr ''S2'') 1705329000 (KeyError ''distance_remaining_km'')) \<le> 0.5
   \<and> estimated_delay_minutes (degraded (PStr ''S2'') 1705329000 (KeyError ''distance_remaining_km'')) \<noteq> 0"
  by (simp add: example_defs engine_defs)

text \<open>
  C4, as amended. For a successful prediction with probability \<open>p\<close>: the estimate is 0
  when \<open>p \<le> 0.5\<close>; otherwise the observation's distance is a number \<open>d\<close> and the
  estimate is the float product \<open>p * 120 * min (d / 1000) 2\<close>, every operation rounded
  to the nearest float, truncated towards zero; it is not negative when \<open>d\<close> is not;
  \<open>p = 0.9\<close> with \<open>d = 2000\<close> gives 216.
\<close>

theorem estimated_delay_truncates:
  assumes "predict_delay pd eng clk obs = (Inr (p, r), clk')" and "error r = None"
  shows "(p \<le> 0.5 \<longrightarrow> estimated_delay_minutes r = 0)
       \<and> (0.5 < p \<longrightarrow> (\<exists>d. obs ''distance_remaining_km'' = Some (PNum d)
              \<and> estimated_delay_minutes r
                  = py_int (fl (fl (fl p * 120) * min (fl (fl d / 1000)) 2))
              \<and> (0 \<le> d \<longrightarrow> 0 \<le> estimated_delay_minutes r)))
       \<and> (p = 0.9 \<and> obs ''distance_remaining_km'' = Some (PNum 2000)
              \<longrightarrow> estimated_delay_minutes r = 216)"
  using predict_delay_Inr [OF assms(1)]
proof (elim disjE exE conjE)
  fix m assume "predict_delay_try pd eng m clk obs = (Inr (p, r), clk')"
  from predict_delay_try_Inr [OF this]
  have est: "estimated_delay p obs = Inr (estimated_delay_minutes r)"
    and d: "obs ''distance_remaining_km'' \<noteq> None" by simp_all
  note E = estimated_delay_Inr [OF est d]
  have 1: "p \<le> 0.5 \<longrightarrow> estimated_delay_minutes r = 0" using E by simp
  have 2: "0.5 < p \<longrightarrow> (\<exists>d. obs ''distance_remaining_km'' = Some (PNum d)
              \<and> estimated_delay_minutes r
                  = py_int (fl (fl (fl p * 120) * min (fl (fl d / 1000)) 2))
              \<and> (0 \<le> d \<longrightarrow> 0 \<le> estimated_delay_minutes r))"
  proof
    assume p: "0.5 < p"
    with E obtain d where dd: "obs ''distance_remaining_km'' = Some (PNum d)"
      "estimated_delay_minutes r = py_int (fl (fl (fl p * 120) * min (fl (fl d / 1000)) 2))"
      by blast
    from p have "0 \<le> p" by simp
    then have "0 \<le> d \<longrightarrow> 0 \<le> estimated_delay_minutes r"
      unfolding dd(2) using delay_nonneg by simp
    with dd show "\<exists>d. obs ''distance_remaining_km'' = Some (PNum d)
              \<and> estimated_delay_minutes r
                  = py_int (fl (fl (fl p * 120) * min (fl (fl d / 1000)) 2))
              \<and> (0 \<le> d \<longrightarrow> 0 \<le> estimated_delay_minutes r)"
      by (intro exI [of _ d] conjI)
  qed
  have 3: "p = 0.9 \<and> obs ''distance_remaining_km'' = Some (PNum 2000)
              \<longrightarrow> estimated_delay_minutes r = 216"
  proof
    assume a: "p = 0.9 \<and> obs ''distance_remaining_km'' = Some (PNum 2000)"
    then have "0.5 < p" by simp
    with E obtain d where dd: "obs ''distance_remaining_km'' = Some (PNum d)"
      "estimated_delay_minutes r = py_int (fl (fl (fl p * 120) * min (fl (fl d / 1000)) 2))"
      by blast
    from a dd(1) have "d = 2000" and "p = 9 / 10" by simp_all
    then show "estimated_delay_minutes r = 216" unfolding dd(2) by (simp only: delay_09_2000)
  qed
  from 1 2 3 show ?thesis by (intro conjI)
next
  fix m e clk1 assume "r = degraded (get obs ''shipment_id'') (clk1 0) e"
  with assms(2) show ?thesis by (simp add: degraded_fields)
qed

theorem estimated_delay_truncates_witness:
  "error (snd (projr (fst (predict_delay example_pandas (example_engine 0.9) example_clock
       (example_shipment 2000))))) = None
   \<and> estimated_delay_minutes (snd (projr (fst (predict_delay example_pandas (example_engine 0.9)
       example_clock (example_shipment 2000))))) = 216
   \<and> error (snd (projr (fst (predict_delay example_pandas (example_engine 0.75) example_clock
       (example_shipment 700))))) = None
   \<and> estimated_delay_minutes (snd (projr (fst (predict_delay example_pandas (example_engine 0.75)
       example_clock (example_shipment 700))))) = 62"
proof -
  obtain r clk' where e: "predict_delay example_pandas (example_engine 0.9) example_clock
       (example_shipment 2000) = (Inr (0.9, r), clk')"
    and r: "error r = None"
    by (simp add: example_defs engine_defs)
  have d: "example_shipment 2000 ''distance_remaining_km'' = Some (PNum 2000)"
    by (simp add: example_shipment_def)
  from estimated_delay_truncates [OF e r] d have a: "estimated_delay_minutes r = 216" by simp
  obtain r2 clk2 where e2: "predict_delay example_pandas (example_engine 0.75) example_clock
       (example_shipment 700) = (Inr (75 / 100, r2), clk2)"
    and r2: "error r2 = None"
    by (simp add: example_defs engine_defs)
  have "(0.5::real) < 75 / 100" by simp
  with estimated_delay_truncates [OF e2 r2]
  obtain d2 where d2: "example_shipment 700 ''distance_remaining_km'' = Some (PNum d2)"
    and v: "estimated_delay_minutes r2
              = py_int (fl (fl (fl (75 / 100) * 120) * min (fl (fl d2 / 1000)) 2))"
    by blast
  from d2 have "d2 = 700" by (simp add: example_shipment_def)
  with v have b: "estimated_delay_minutes r2 = 62" by (simp only: delay_075_700)
  from e r a e2 r2 b show ?thesis by simp
qed

text \<open>
  C4 as stated fails: probability 0.75 at 1010 km gives 90 minutes, where rounding 90.9
  gives 91; and at a distance of -1000 km the estimate is -90.
\<close>

theorem estimated_delay_round_counterexample:
  "error (snd (projr (fst (predict_delay example_pandas (example_engine 0.75) example_clock
       (example_shipment 1010))))) = None
   \<and> estimated_delay_minutes (snd (projr (fst (predict_delay example_pandas (example_engine 0.75)
       example_clock (example_shipment 1010))))) = 90
   \<and> spec_estimated_delay 0.75 1010 = 91
   \<and> error (snd (projr (fst (predict_delay example_pandas (example_engine 0.75) example_clock
       (example_shipment (- 1000)))))) = None
   \<and> estimated_delay_minutes (snd (projr (fst (predict_delay example_pandas (example_engine 0.75)
       example_clock (example_shipment (- 1000)))))) = - 90"
proof -
  have "(0.5::real) < 75 / 100" by simp
  then have a: "estimated_delay_minutes (snd (projr (fst (predict_delay example_pandas
       (example_engine (75 / 100)) example_clock (example_shipment 1010))))) = 90"
    and b: "estimated_delay_minutes (snd (projr (fst (predict_delay example_pandas
       (example_engine (75 / 100)) example_clock (example_shipment (- 1000)))))) = - 90"
    by (simp_all only: example_estimate(1) if_True delay_075_1010 delay_075_neg)
  have c: "spec_estimated_delay 0.75 1010 = 91"
    by (simp add: spec_estimated_delay_def round_def)
  from a b c show ?thesis by (simp add: example_estimate(2))
qed

section \<open>Batch prediction and the unloaded engine: the claims\<close>



text \<open>
  C2, as amended. On an engine with no loaded model, \<open>predict_delay\<close> raises the
  not-loaded \<open>ValueError\<close> to its caller and leaves the clock alone, whereas
  \<open>predict_batch\<close> catches it: it returns one degraded result per item, carrying the
  not-loaded message. \<open>load_model\<close> reports a missing or unreadable artifact as
  \<open>False\<close> and leaves the engine as it was, and a predictor constructed on such a path
  has no model.
\<close>

theorem unloaded_engine_batch_degrades:
  assumes "model eng = None"
  shows "predict_delay pd eng clk shipment = (Inl (ValueError not_loaded), clk)
     \<and> (\<exists>results clk'.
          predict_batch pd eng clk shipment_list = (Inr results, clk')
          \<and> length results = length shipment_list
          \<and> (\<forall>i < length shipment_list.
                shipment_id (results ! i)
                  = get_default (shipment_list ! i) ''shipment_id'' (PStr ''unknown'')
                \<and> delay_probability (results ! i) = 0.5
                \<and> risk_level (results ! i) = Medium
                \<and> estimated_delay_minutes (results ! i) = 60
                \<and> error (results ! i) = Some not_loaded))
     \<and> (fs model_path = None \<or> fs model_path = Some Unreadable
          \<longrightarrow> load_model fs model_path eng = (False, eng)
              \<and> model (init_predictor fs model_path) = None)"
proof (intro conjI)
  show "predict_delay pd eng clk shipment = (Inl (ValueError not_loaded), clk)"
    using assms by (simp add: predict_delay_def not_loaded_def)
next
  let ?results = "fst (predict_batch_loop pd eng clk shipment_list [])"
  have 1: "predict_batch pd eng clk shipment_list =
             (Inr ?results, snd (predict_batch_loop pd eng clk shipment_list []))"
    by (simp add: predict_batch_def split: prod.splits)
  have 2: "length ?results = length shipment_list"
    by (rule predict_batch_loop_length)
  have 3: "\<forall>i < length shipment_list.
                shipment_id (?results ! i)
                  = get_default (shipment_list ! i) ''shipment_id'' (PStr ''unknown'')
                \<and> delay_probability (?results ! i) = 0.5
                \<and> risk_level (?results ! i) = Medium
                \<and> estimated_delay_minutes (?results ! i) = 60
                \<and> error (?results ! i) = Some not_loaded"
    using assms
    by (simp add: predict_batch_loop_nth batch_item_unloaded degraded_fields not_loaded_def)
  from 1 2 3 show "\<exists>results clk'.
          predict_batch pd eng clk shipment_list = (Inr results, clk')
          \<and> length results = length shipment_list
          \<and> (\<forall>i < length shipment_list.
                shipment_id (results ! i)
                  = get_default (shipment_list ! i) ''shipment_id'' (PStr ''unknown'')
                \<and> delay_probability (results ! i) = 0.5
                \<and> risk_level (results ! i) = Medium
                \<and> estimated_delay_minutes (results ! i) = 60
                \<and> error (results ! i) = Some not_loaded)"
    by blast
next
  show "fs model_path = None \<or> fs model_path = Some Unreadable
          \<longrightarrow> load_model fs model_path eng = (False, eng)
              \<and> model (init_predictor fs model_path) = None"
    using load_model_fails init_predictor_unloaded by blast
qed

theorem unloaded_engine_batch_degrades_witness:
  "model (init_predictor no_files ''delay_predictor.joblib'') = None
   \<and> fst (predict_delay example_pandas (init_predictor no_files ''delay_predictor.joblib'')
        example_clock (example_shipment 2000)) = Inl (ValueError not_loaded)
   \<and> length (projr (fst (predict_batch example_pandas
        (init_predictor no_files ''delay_predictor.joblib'') example_clock
        [example_shipment 2000, example_incomplete]))) = 2"
proof -
  have m: "model (init_predictor no_files ''delay_predictor.joblib'') = None"
    by (simp add: init_predictor_def no_files_def)
  from unloaded_engine_batch_degrades [OF m, of example_pandas example_clock
      "example_shipment 2000" "[example_shipment 2000, example_incomplete]"
      no_files "''delay_predictor.joblib''"]
  obtain results clk' where
    "predict_delay example_pandas (init_predictor no_files ''delay_predictor.joblib'')
        example_clock (example_shipment 2000) = (Inl (ValueError not_loaded), example_clock)"
    and "predict_batch example_pandas (init_predictor no_files ''delay_predictor.joblib'')
        example_clock [example_shipment 2000, example_incomplete] = (Inr results, clk')"
    and "length results = length [example_shipment 2000, example_incomplete]"
    by blast
  with m show ?thesis by simp
qed

text \<open>
  C2 as stated fails: a batch on a predictor constructed without an artifact returns a
  degraded result instead of the error, and loading from a path without a file returns
  \<open>False\<close> instead of raising.
\<close>

theorem unloaded_batch_counterexample:
  "fst (predict_batch example_pandas (init_predictor no_files ''delay_predictor.joblib'')
        example_clock [example_shipment 2000])
     = Inr [degraded (PStr ''S1'') 1705329000 (ValueError not_loaded)]
   \<and> load_model no_files ''delay_predictor.joblib'' (example_engine 0.9)
     = (False, example_engine 0.9)"
  by (simp add: batch_defs predict_delay_def init_predictor_def no_files_def load_model_def
      example_shipment_def example_clock_def now_def get_default_def not_loaded_def)

section \<open>Feature building: the claims\<close>

text \<open>
  C8, as amended. Whenever \<open>prepare_features\<close> returns a vector, the vector has one
  entry per schema column, and entry \<open>i\<close> is the value of column
  \<open>feature_columns ! i\<close>: the computed value for each of the eleven computed columns,
  and for any other column the observation's raw field of that name, or 0 when the
  observation has no such field. It returns a vector for every observation that has the
  distance and speed fields and whose timestamp, when present, converts.
\<close>

theorem feature_vector_shape:
  "(\<forall>v clk'. prepare_features pd eng clk obs = (Inr v, clk') \<longrightarrow>
       length v = length (feature_columns eng)
       \<and> (\<exists>dv sv w t ts.
              obs ''distance_remaining_km'' = Some dv \<and> obs ''vehicle_speed_kmph'' = Some sv
            \<and> encode_column eng obs ''weather'' = Inr w
            \<and> encode_column eng obs ''traffic_level'' = Inr t
            \<and> fst (timestamp_column pd clk obs) = Inr ts
            \<and> (\<forall>i < length (feature_columns eng).
                 (feature_columns eng ! i = ''distance_remaining_km''
                    \<longrightarrow> v ! i = Flt (fillna 1000 (to_numeric pd dv)))
               \<and> (feature_columns eng ! i = ''vehicle_speed_kmph''
                    \<longrightarrow> v ! i = Flt (fillna 60 (to_numeric pd sv)))
               \<and> (feature_columns eng ! i = ''weather_encoded'' \<longrightarrow> v ! i = w)
               \<and> (feature_columns eng ! i = ''traffic_level_encoded'' \<longrightarrow> v ! i = t)
               \<and> (feature_columns eng ! i = ''timestamp'' \<longrightarrow> v ! i = Dt ts)
               \<and> (feature_columns eng ! i = ''hour_of_day'' \<longrightarrow> v ! i = Flt (dt_hour ts))
               \<and> (feature_columns eng ! i = ''day_of_week''
                    \<longrightarrow> v ! i = Flt (dt_dayofweek ts))
               \<and> (feature_columns eng ! i = ''is_weekend''
                    \<longrightarrow> v ! i = Flt (Num (if fge (dt_dayofweek ts) 5 then 1 else 0)))
               \<and> (feature_columns eng ! i = ''origin_risk_score''
                    \<longrightarrow> v ! i = Flt (Num (1 / 10)))
               \<and> (feature_columns eng ! i = ''destination_risk_score''
                    \<longrightarrow> v ! i = Flt (Num (1 / 10)))
               \<and> (feature_columns eng ! i = ''route_complexity''
                    \<longrightarrow> v ! i = Flt (fdiv (fdiv (fillna 1000 (to_numeric pd dv))
                                         (fadd (fillna 60 (to_numeric pd sv)) (Num 1)))
                                       (Num 100)))
               \<and> (feature_columns eng ! i \<notin> computed_names
                    \<longrightarrow> v ! i = (case obs (feature_columns eng ! i) of
                                   None \<Rightarrow> Flt (Num 0) | Some x \<Rightarrow> Obj x)))))
   \<and> (obs ''distance_remaining_km'' \<noteq> None \<and> obs ''vehicle_speed_kmph'' \<noteq> None
        \<and> (\<forall>x. obs ''timestamp'' = Some x \<longrightarrow> (\<exists>ts. to_datetime pd x = Inr ts))
      \<longrightarrow> (\<exists>v clk'. prepare_features pd eng clk obs = (Inr v, clk')))"
proof (intro conjI allI impI)
  fix v clk' assume a: "prepare_features pd eng clk obs = (Inr v, clk')"
  from prepare_features_frame [OF a] obtain dv sv w t ts where
    dv: "obs ''distance_remaining_km'' = Some dv" and sv: "obs ''vehicle_speed_kmph'' = Some sv"
    and w: "encode_column eng obs ''weather'' = Inr w"
    and t: "encode_column eng obs ''traffic_level'' = Inr t"
    and tc: "timestamp_column pd clk obs = (Inr ts, clk')"
    and v: "v = map (\<lambda>c. case computed_frame obs (fillna 1000 (to_numeric pd dv))
                               (fillna 60 (to_numeric pd sv)) w t ts c of
                           None \<Rightarrow> Flt (Num 0) | Some x \<Rightarrow> x) (feature_columns eng)"
    by (elim exE conjE)
  from v show "length v = length (feature_columns eng)" by simp
  from tc have ts: "fst (timestamp_column pd clk obs) = Inr ts" by simp
  have body: "\<forall>i < length (feature_columns eng).
                 (feature_columns eng ! i = ''distance_remaining_km''
                    \<longrightarrow> v ! i = Flt (fillna 1000 (to_numeric pd dv)))
               \<and> (feature_columns eng ! i = ''vehicle_speed_kmph''
                    \<longrightarrow> v ! i = Flt (fillna 60 (to_numeric pd sv)))
               \<and> (feature_columns eng ! i = ''weather_encoded'' \<longrightarrow> v ! i = w)
               \<and> (feature_columns eng ! i = ''traffic_level_encoded'' \<longrightarrow> v ! i = t)
               \<and> (feature_columns eng ! i = ''timestamp'' \<longrightarrow> v ! i = Dt ts)
               \<and> (feature_columns eng ! i = ''hour_of_day'' \<longrightarrow> v ! i = Flt (dt_hour ts))
               \<and> (feature_columns eng ! i = ''day_of_week''
                    \<longrightarrow> v ! i = Flt (dt_dayofweek ts))
               \<and> (feature_columns eng ! i = ''is_weekend''
                    \<longrightarrow> v ! i = Flt (Num (if fge (dt_dayofweek ts) 5 then 1 else 0)))
               \<and> (feature_columns eng ! i = ''origin_risk_score''
                    \<longrightarrow> v ! i = Flt (Num (1 / 10)))
               \<and> (feature_columns eng ! i = ''destination_risk_score''
                    \<longrightarrow> v ! i = Flt (Num (1 / 10)))
               \<and> (feature_columns eng ! i = ''route_complexity''
                    \<longrightarrow> v ! i = Flt (fdiv (fdiv (fillna 1000 (to_numeric pd dv))
                                         (fadd (fillna 60 (to_numeric pd sv)) (Num 1)))
                                       (Num 100)))
               \<and> (feature_columns eng ! i \<notin> computed_names
                    \<longrightarrow> v ! i = (case obs (feature_columns eng ! i) of
                                   None \<Rightarrow> Flt (Num 0) | Some x \<Rightarrow> Obj x))"
  proof (intro allI impI)
    fix i assume i: "i < length (feature_columns eng)"
    with v have n: "v ! i = (case computed_frame obs (fillna 1000 (to_numeric pd dv))
                               (fillna 60 (to_numeric pd sv)) w t ts (feature_columns eng ! i) of
                           None \<Rightarrow> Flt (Num 0) | Some x \<Rightarrow> x)" by simp
    show "(feature_columns eng ! i = ''distance_remaining_km''
                    \<longrightarrow> v ! i = Flt (fillna 1000 (to_numeric pd dv)))
               \<and> (feature_columns eng ! i = ''vehicle_speed_kmph''
                    \<longrightarrow> v ! i = Flt (fillna 60 (to_numeric pd sv)))
               \<and> (feature_columns eng ! i = ''weather_encoded'' \<longrightarrow> v ! i = w)
               \<and> (feature_columns eng ! i = ''traffic_level_encoded'' \<longrightarrow> v ! i = t)
               \<and> (feature_columns eng ! i = ''timestamp'' \<longrightarrow> v ! i = Dt ts)
               \<and> (feature_columns eng ! i = ''hour_of_day'' \<longrightarrow> v ! i = Flt (dt_hour ts))
               \<and> (feature_columns eng ! i = ''day_of_week''
                    \<longrightarrow> v ! i = Flt (dt_dayofweek ts))
               \<and> (feature_columns eng ! i = ''is_weekend''
                    \<longrightarrow> v ! i = Flt (Num (if fge (dt_dayofweek ts) 5 then 1 else 0)))
               \<and> (feature_columns eng ! i = ''origin_risk_score''
                    \<longrightarrow> v ! i = Flt (Num (1 / 10)))
               \<and> (feature_columns eng ! i = ''destination_risk_score''
                    \<longrightarrow> v ! i = Flt (Num (1 / 10)))
               \<and> (feature_columns eng ! i = ''route_complexity''
                    \<longrightarrow> v ! i = Flt (fdiv (fdiv (fillna 1000 (to_numeric pd dv))
                                         (fadd (fillna 60 (to_numeric pd sv)) (Num 1)))
                                       (Num 100)))
               \<and> (feature_columns eng ! i \<notin> computed_names
                    \<longrightarrow> v ! i = (case obs (feature_columns eng ! i) of
                                   None \<Rightarrow> Flt (Num 0) | Some x \<Rightarrow> Obj x))"
      unfolding n
      by (intro conjI impI) (simp_all add: computed_frame_columns computed_frame_raw
            split: option.splits)
  qed
  from dv sv w t ts body
  show "\<exists>dv sv w t ts.
              obs ''distance_remaining_km'' = Some dv \<and> obs ''vehicle_speed_kmph'' = Some sv
            \<and> encode_column eng obs ''weather'' = Inr w
            \<and> encode_column eng obs ''traffic_level'' = Inr t
            \<and> fst (timestamp_column pd clk obs) = Inr ts
            \<and> (\<forall>i < length (feature_columns eng).
                 (feature_columns eng ! i = ''distance_remaining_km''
                    \<longrightarrow> v ! i = Flt (fillna 1000 (to_numeric pd dv)))
               \<and> (feature_columns eng ! i = ''vehicle_speed_kmph''
                    \<longrightarrow> v ! i = Flt (fillna 60 (to_numeric pd sv)))
               \<and> (feature_columns eng ! i = ''weather_encoded'' \<longrightarrow> v ! i = w)
               \<and> (feature_columns eng ! i = ''traffic_level_encoded'' \<longrightarrow> v ! i = t)
               \<and> (feature_columns eng ! i = ''timestamp'' \<longrightarrow> v ! i = Dt ts)
               \<and> (feature_columns eng ! i = ''hour_of_day'' \<longrightarrow> v ! i = Flt (dt_hour ts))
               \<and> (feature_columns eng ! i = ''day_of_week''
                    \<longrightarrow> v ! i = Flt (dt_dayofweek ts))
               \<and> (feature_columns eng ! i = ''is_weekend''
                    \<longrightarrow> v ! i = Flt (Num (if fge (dt_dayofweek ts) 5 then 1 else 0)))
               \<and> (feature_columns eng ! i = ''origin_risk_score''
                    \<longrightarrow> v ! i = Flt (Num (1 / 10)))
               \<and> (feature_columns eng ! i = ''destination_risk_score''
                    \<longrightarrow> v ! i = Flt (Num (1 / 10)))
               \<and> (feature_columns eng ! i = ''route_complexity''
                    \<longrightarrow> v ! i = Flt (fdiv (fdiv (fillna 1000 (to_numeric pd dv))
                                         (fadd (fillna 60 (to_numeric pd sv)) (Num 1)))
                                       (Num 100)))
               \<and> (feature_columns eng ! i \<notin> computed_names
                    \<longrightarrow> v ! i = (case obs (feature_columns eng ! i) of
                                   None \<Rightarrow> Flt (Num 0) | Some x \<Rightarrow> Obj x)))"
    by (intro exI conjI)
next
  assume "obs ''distance_remaining_km'' \<noteq> None \<and> obs ''vehicle_speed_kmph'' \<noteq> None
        \<and> (\<forall>x. obs ''timestamp'' = Some x \<longrightarrow> (\<exists>ts. to_datetime pd x = Inr ts))"
  then show "\<exists>v clk'. prepare_features pd eng clk obs = (Inr v, clk')"
    using prepare_features_returns by blast
qed

theorem feature_vector_shape_witness:
  "fst (prepare_features example_pandas
          ((example_engine 0.9)\<lparr>feature_columns := example_schema\<rparr>) example_clock example_untimed)
     = Inr [Flt (Num 0), Flt (Num 14), Obj (PStr ''Clear''),
            Flt (fdiv (fdiv (Num 500) (fadd (Num 70) (Num 1))) (Num 100))]
   \<and> length (projr (fst (prepare_features example_pandas
          ((example_engine 0.9)\<lparr>feature_columns := example_schema\<rparr>) example_clock
          example_untimed))) = length example_schema"
proof -
  let ?eng = "(example_engine 0.9)\<lparr>feature_columns := example_schema\<rparr>"
  let ?v = "[Flt (Num 0), Flt (Num 14), Obj (PStr ''Clear''),
            Flt (fdiv (fdiv (Num 500) (fadd (Num 70) (Num 1))) (Num 100))]"
  have e: "prepare_features example_pandas ?eng example_clock example_untimed
     = (Inr ?v, \<lambda>n. example_clock (Suc n))"
    by (simp add: example_defs engine_defs example_untimed_def example_schema_def)
  from feature_vector_shape [of example_pandas ?eng example_clock example_untimed] e
  have "length ?v = length (feature_columns ?eng)"
    by blast
  with e show ?thesis by simp
qed

text \<open>
  C8 as stated fails: a schema column that is not a computed column but names a field of
  the observation carries the raw field, not 0.
\<close>

theorem raw_column_counterexample:
  "''weather'' \<notin> computed_names
   \<and> fst (prepare_features example_pandas
          ((example_engine 0.9)\<lparr>feature_columns := [''weather'']\<rparr>) example_clock example_untimed)
     = Inr [Obj (PStr ''Clear'')]
   \<and> Obj (PStr ''Clear'') \<noteq> Flt (Num 0)"
  by (simp add: example_defs engine_defs example_untimed_def computed_names_def)




text \<open>
  C7, as amended. Encoding a categorical column never raises and gives a natural number
  code: 0 when the observation lacks the field, the artifact lacks the encoder or the
  value is outside the encoder's classes; for a value among the classes, its position in
  the class list, so the first class is encoded as 0 too.
\<close>

theorem encode_column_codes:
  "\<exists>c. encode_column eng obs col = Inr (Flt (Num (real c)))
     \<and> (\<forall>x encoder. obs col = Some x \<and> feature_encoders eng col = Some encoder \<longrightarrow>
            (x \<in> set (classes encoder) \<longrightarrow> c < length (classes encoder) \<and> classes encoder ! c = x)
          \<and> (x \<notin> set (classes encoder) \<longrightarrow> c = 0)
          \<and> (classes encoder \<noteq> [] \<and> x = hd (classes encoder) \<longrightarrow> c = 0))
     \<and> (obs col = None \<or> feature_encoders eng col = None \<longrightarrow> c = 0)"
  (is "\<exists>c. ?E c \<and> ?A c \<and> ?B c")
proof (cases "\<exists>x encoder. obs col = Some x \<and> feature_encoders eng col = Some encoder
                \<and> x \<in> set (classes encoder)")
  case False
  have e: "?E 0"
  proof (cases "obs col = None \<or> feature_encoders eng col = None")
    case True
    then show ?thesis by (rule encode_column_no_field)
  next
    case nf: False
    then obtain x encoder where xe: "obs col = Some x" "feature_encoders eng col = Some encoder"
      by fastforce
    with False have "x \<notin> set (classes encoder)" by simp
    with xe show ?thesis by (rule encode_column_unknown)
  qed
  have A: "?A 0"
  proof (intro allI impI)
    fix x encoder
    assume a: "obs col = Some x \<and> feature_encoders eng col = Some encoder"
    with False have n: "x \<notin> set (classes encoder)" by simp
    show "(x \<in> set (classes encoder) \<longrightarrow> 0 < length (classes encoder) \<and> classes encoder ! 0 = x)
          \<and> (x \<notin> set (classes encoder) \<longrightarrow> (0::nat) = 0)
          \<and> (classes encoder \<noteq> [] \<and> x = hd (classes encoder) \<longrightarrow> (0::nat) = 0)"
      using n by simp
  qed
  have B: "?B 0" by simp
  show ?thesis
    by (rule exI [of _ 0]) (rule conjI [OF e conjI [OF A B]])
next
  case True
  then obtain x encoder where xe: "obs col = Some x" "feature_encoders eng col = Some encoder"
    and mem: "x \<in> set (classes encoder)"
    by (elim exE conjE)
  from index_of_member [OF mem]
  obtain i where i: "index_of x (classes encoder) = Some i"
    and il: "i < length (classes encoder)" and ix: "classes encoder ! i = x"
    by (elim exE conjE)
  have e: "?E i" using xe mem i by (rule encode_column_known)
  note z = index_of_hd_zero [OF i]
  have A: "?A i"
  proof (intro allI impI)
    fix x' encoder'
    assume a: "obs col = Some x' \<and> feature_encoders eng col = Some encoder'"
    with xe have eq: "x' = x" "encoder' = encoder" by simp_all
    show "(x' \<in> set (classes encoder') \<longrightarrow> i < length (classes encoder') \<and> classes encoder' ! i = x')
          \<and> (x' \<notin> set (classes encoder') \<longrightarrow> i = 0)
          \<and> (classes encoder' \<noteq> [] \<and> x' = hd (classes encoder') \<longrightarrow> i = 0)"
      unfolding eq
    proof (intro conjI)
      show "x \<in> set (classes encoder) \<longrightarrow> i < length (classes encoder) \<and> classes encoder ! i = x"
        using il ix by (intro impI conjI)
      show "x \<notin> set (classes encoder) \<longrightarrow> i = 0"
      proof
        assume "x \<notin> set (classes encoder)"
        with mem show "i = 0" by (rule notE [rotated])
      qed
      show "classes encoder \<noteq> [] \<and> x = hd (classes encoder) \<longrightarrow> i = 0"
        by (rule z)
    qed
  qed
  have B: "?B i" using xe by simp
  show ?thesis
    by (rule exI [of _ i]) (rule conjI [OF e conjI [OF A B]])
qed

theorem encode_column_codes_witness:
  "encode_column (example_engine 0.9) (example_shipment 2000) ''weather'' = Inr (Flt (Num 2))
   \<and> encode_column (example_engine 0.9) example_incomplete ''weather'' = Inr (Flt (Num 0))
   \<and> encode_column (example_engine 0.9) example_incomplete ''traffic_level'' = Inr (Flt (Num 0))"
proof -
  have n: "example_incomplete ''traffic_level'' = None"
    by (simp add: example_incomplete_def)
  from encode_column_codes [of "example_engine 0.9" example_incomplete "''traffic_level''"]
  obtain c where c: "encode_column (example_engine 0.9) example_incomplete ''traffic_level''
      = Inr (Flt (Num (real c)))"
    and z: "example_incomplete ''traffic_level'' = None
           \<or> feature_encoders (example_engine 0.9) ''traffic_level'' = None \<longrightarrow> c = 0"
    by (elim exE conjE)
  from z n have "c = 0" by (elim impE) (rule disjI1)
  with c have 3: "encode_column (example_engine 0.9) example_incomplete ''traffic_level''
      = Inr (Flt (Num 0))"
    by simp
  have 1: "encode_column (example_engine 0.9) (example_shipment 2000) ''weather''
      = Inr (Flt (Num 2))"
    by (simp add: example_defs encode_column_def transform_def)
  have 2: "encode_column (example_engine 0.9) example_incomplete ''weather''
      = Inr (Flt (Num 0))"
    by (simp add: example_defs encode_column_def transform_def)
  from 1 2 3 show ?thesis by (intro conjI)
qed

text \<open>
  C7 as stated fails: code 0 is not reserved. With the encoder fitted on the generator's
  traffic levels, the in-domain value Heavy is encoded as 0.
\<close>

theorem code_zero_counterexample:
  "example_shipment 2000 ''traffic_level'' = Some (PStr ''Heavy'')
   \<and> feature_encoders (example_engine 0.9) ''traffic_level'' = Some (fit_encoder traffic_levels)
   \<and> PStr ''Heavy'' \<in> set (classes (fit_encoder traffic_levels))
   \<and> encode_column (example_engine 0.9) (example_shipment 2000) ''traffic_level''
       = Inr (Flt (Num 0))"
proof (intro conjI)
  show "example_shipment 2000 ''traffic_level'' = Some (PStr ''Heavy'')"
    by (simp add: example_shipment_def)
  show "feature_encoders (example_engine 0.9) ''traffic_level'' = Some (fit_encoder traffic_levels)"
    by (simp add: example_engine_def)
  show "PStr ''Heavy'' \<in> set (classes (fit_encoder traffic_levels))"
    by (simp add: fit_encoder_def traffic_levels_def)
  show "encode_column (example_engine 0.9) (example_shipment 2000) ''traffic_level''
       = Inr (Flt (Num 0))"
    by (simp add: example_defs encode_column_def transform_def)
qed

section \<open>Alerting\<close>








section \<open>Training\<close>

lemma synthetic_loop_rows:
  "fst (synthetic_loop row_of clk j k data)
     = data @ map (\<lambda>i. row_of (j + i) (clk i)) [0..<k]"
proof (induction k arbitrary: clk j data)
  case 0
  then show ?case by simp
next
  case (Suc k)
  have u: "[0..<Suc k] = 0 # map Suc [0..<k]"
    by (simp add: map_Suc_upt upt_conv_Cons del: upt_Suc)
  show ?case
    unfolding u by (simp add: now_def Suc.IH comp_def)
qed

lemma synthetic_loop_clock:
  "snd (synthetic_loop row_of clk i k data) = (\<lambda>n. clk (n + k))"
  by (induction k arbitrary: clk i data) (simp_all add: now_def)

lemma generate_rows:
  "fst (generate_synthetic_training_data row_of clk n) = map (\<lambda>i. row_of i (clk i)) [0..<n]"
  by (simp add: generate_synthetic_training_data_def synthetic_loop_rows)

lemma generate_length:
  "length (fst (generate_synthetic_training_data row_of clk n)) = n"
  by (simp add: generate_rows)

lemma generate_clock:
  "snd (generate_synthetic_training_data row_of clk n) = (\<lambda>k. clk (k + n))"
  by (simp add: generate_synthetic_training_data_def synthetic_loop_clock)

lemma load_training_data_synthetic:
  "\<forall>h. query = Inr h \<longrightarrow> length h < 100 \<Longrightarrow>
     load_training_data query row_of clk = generate_synthetic_training_data row_of clk 5000"
  by (cases query) (simp_all add: load_training_data_def)

lemma load_training_data_real:
  "query = Inr h \<Longrightarrow> 100 \<le> length h \<Longrightarrow> load_training_data query row_of clk = (h, clk)"
  by (simp add: load_training_data_def)

lemma engineer_features_init:
  "engineer_features init_trainer df =
     Inr (init_trainer\<lparr>t_feature_encoders :=
            [''weather'' \<mapsto> fit_encoder (map weather df),
             ''traffic_level'' \<mapsto> fit_encoder (map traffic_level df)]\<rparr>)"
  by (simp add: engineer_features_def engineer_column_def init_trainer_def)

lemma bundle_of_provenance:
  "md_version (bundle_of tr t) = Some ''1.0''" "md_trained_at (bundle_of tr t) = Some t"
  "md_feature_columns (bundle_of tr t) = Some (t_feature_columns tr)"
  by (simp_all add: bundle_of_def)

lemma train_model_columns:
  "train_model fit init_trainer df = Inr tr \<Longrightarrow>
     t_feature_columns tr = t_feature_columns init_trainer"
  by (auto simp: train_model_def engineer_features_init split: sum.splits)

lemma main_Inr:
  assumes "main fit query row_of model_path fs clk = (Inr fs1, clk1)"
  shows "dirname model_path \<noteq> []
       \<and> (\<exists>tr. train_model fit init_trainer (fst (load_training_data query row_of clk)) = Inr tr
           \<and> fs1 model_path
               = Some (Pickled (bundle_of tr (snd (load_training_data query row_of clk) 0))))"
  using assms
  by (auto simp: main_def save_model_def now_def split: prod.splits sum.splits if_splits)

lemma main_saves:
  assumes "dirname model_path \<noteq> []"
    and "train_model fit init_trainer (fst (load_training_data query row_of clk)) = Inr tr"
  shows "main fit query row_of model_path fs clk =
     (Inr (fs(model_path \<mapsto>
             Pickled (bundle_of tr (snd (load_training_data query row_of clk) 0)))),
      \<lambda>n. snd (load_training_data query row_of clk) (Suc n))"
proof (cases "load_training_data query row_of clk")
  case (Pair df clk1)
  with assms show ?thesis by (simp add: main_def save_model_def now_def)
qed

lemma dirname_example: "dirname example_model_path = ''./ml/models''"
  by (simp add: dirname_def example_model_path_def)

lemma example_history_length: "length example_history = 100"
  by (simp add: example_history_def length_concat sum_list_replicate)

lemma example_history_set: "set example_history = {example_row 0, example_row 1}"
  by (simp add: example_history_def)

lemma example_synthetic_rows:
  "example_row_of 0 (clk 0) \<in> set (fst (generate_synthetic_training_data example_row_of clk 5000))"
  "example_row_of 1 (clk 1) \<in> set (fst (generate_synthetic_training_data example_row_of clk 5000))"
  using imageI [of 0 "set [0..<5000]" "\<lambda>i. example_row_of i (clk i)"]
    imageI [of 1 "set [0..<5000]" "\<lambda>i. example_row_of i (clk i)"]
  by (simp_all add: generate_rows)

lemma example_fit_history:
  "example_fit example_history encoders = Inr (example_scaler, \<lambda>v. Inr 0.5)"
  by (simp add: example_fit_def list_ex_iff example_history_set example_row_def)

lemma example_fit_synthetic:
  "example_fit (fst (generate_synthetic_training_data example_row_of clk 5000)) encoders
     = Inr (example_scaler, \<lambda>v. Inr 0.5)"
proof -
  have "is_delayed (example_row_of 0 (clk 0)) = 0" "is_delayed (example_row_of 1 (clk 1)) = 1"
    by (simp_all add: example_row_of_def example_row_def)
  with example_synthetic_rows [of clk]
  have "\<exists>r \<in> set (fst (generate_synthetic_training_data example_row_of clk 5000)).
          is_delayed r = 0"
    and "\<exists>r \<in> set (fst (generate_synthetic_training_data example_row_of clk 5000)).
          is_delayed r = 1"
    by blast+
  then show ?thesis by (simp add: example_fit_def list_ex_iff)
qed

lemma train_model_example:
  assumes "example_fit df [''weather'' \<mapsto> fit_encoder (map weather df),
             ''traffic_level'' \<mapsto> fit_encoder (map traffic_level df)]
           = Inr (example_scaler, \<lambda>v. Inr 0.5)"
  shows "train_model example_fit init_trainer df =
     Inr (init_trainer\<lparr>t_feature_encoders :=
            [''weather'' \<mapsto> fit_encoder (map weather df),
             ''traffic_level'' \<mapsto> fit_encoder (map traffic_level df)],
           t_scaler := example_scaler, t_model := Some (\<lambda>v. Inr 0.5)\<rparr>)"
  using assms by (simp add: train_model_def engineer_features_init)

lemma saved_bundle_main:
  assumes "dirname model_path \<noteq> []"
    and "train_model fit init_trainer (fst (load_training_data query row_of clk)) = Inr tr"
  shows "saved_bundle (main fit query row_of model_path fs clk) model_path
     = Some (bundle_of tr (snd (load_training_data query row_of clk) 0))"
  by (simp add: saved_bundle_def main_saves [OF assms])


text \<open>
  C10, as amended. \<open>load_training_data\<close> never fails: when the query fails or returns
  fewer than 100 rows it returns the 5000 synthetic rows, and otherwise the history as
  it is. The bundle that a successful run of \<open>main\<close> saves carries the version
  \<open>1.0\<close>, the time of saving and the canonical columns, whichever data was used; and
  \<open>main\<close> saves a bundle whenever the artifact path has a directory part and the
  training on the loaded data succeeds.
\<close>

theorem synthetic_fallback_unmarked:
  "(\<exists>df clk'. load_training_data query row_of clk = (df, clk')
       \<and> ((\<forall>h. query = Inr h \<longrightarrow> length h < 100) \<longrightarrow>
             df = fst (generate_synthetic_training_data row_of clk 5000) \<and> length df = 5000)
       \<and> (\<forall>h. query = Inr h \<and> 100 \<le> length h \<longrightarrow> df = h \<and> clk' = clk))
   \<and> (\<forall>fs1 clk1. main fit query row_of model_path fs clk = (Inr fs1, clk1) \<longrightarrow>
         (\<exists>md. fs1 model_path = Some (Pickled md)
            \<and> md_version md = Some ''1.0''
            \<and> md_trained_at md = Some (snd (load_training_data query row_of clk) 0)
            \<and> md_feature_columns md = Some (t_feature_columns init_trainer)))
   \<and> (dirname model_path \<noteq> []
        \<and> (\<exists>tr. train_model fit init_trainer (fst (load_training_data query row_of clk))
                   = Inr tr)
      \<longrightarrow> (\<exists>fs1 clk1. main fit query row_of model_path fs clk = (Inr fs1, clk1)))"
proof (intro conjI)
  have 1: "(\<forall>h. query = Inr h \<longrightarrow> length h < 100) \<longrightarrow>
             fst (load_training_data query row_of clk)
               = fst (generate_synthetic_training_data row_of clk 5000)
             \<and> length (fst (load_training_data query row_of clk)) = 5000"
    by (simp add: load_training_data_synthetic generate_length)
  have 2: "\<forall>h. query = Inr h \<and> 100 \<le> length h \<longrightarrow>
             fst (load_training_data query row_of clk) = h
             \<and> snd (load_training_data query row_of clk) = clk"
    by (simp add: load_training_data_real)
  have 0: "load_training_data query row_of clk =
      (fst (load_training_data query row_of clk), snd (load_training_data query row_of clk))"
    by simp
  show "\<exists>df clk'. load_training_data query row_of clk = (df, clk')
       \<and> ((\<forall>h. query = Inr h \<longrightarrow> length h < 100) \<longrightarrow>
             df = fst (generate_synthetic_training_data row_of clk 5000) \<and> length df = 5000)
       \<and> (\<forall>h. query = Inr h \<and> 100 \<le> length h \<longrightarrow> df = h \<and> clk' = clk)"
    by (rule exI [of _ "fst (load_training_data query row_of clk)"],
        rule exI [of _ "snd (load_training_data query row_of clk)"])
       (rule conjI [OF 0 conjI [OF 1 2]])
next
  show "\<forall>fs1 clk1. main fit query row_of model_path fs clk = (Inr fs1, clk1) \<longrightarrow>
         (\<exists>md. fs1 model_path = Some (Pickled md)
            \<and> md_version md = Some ''1.0''
            \<and> md_trained_at md = Some (snd (load_training_data query row_of clk) 0)
            \<and> md_feature_columns md = Some (t_feature_columns init_trainer))"
  proof (intro allI impI)
    fix fs1 clk1
    assume "main fit query row_of model_path fs clk = (Inr fs1, clk1)"
    from main_Inr [OF this, THEN conjunct2] obtain tr where
      tr: "train_model fit init_trainer (fst (load_training_data query row_of clk)) = Inr tr"
      and f: "fs1 model_path
        = Some (Pickled (bundle_of tr (snd (load_training_data query row_of clk) 0)))"
      by (elim exE conjE)
    have c: "md_feature_columns (bundle_of tr (snd (load_training_data query row_of clk) 0))
        = Some (t_feature_columns init_trainer)"
    proof -
      have "md_feature_columns (bundle_of tr (snd (load_training_data query row_of clk) 0))
          = Some (t_feature_columns tr)"
        by (rule bundle_of_provenance)
      also have "t_feature_columns tr = t_feature_columns init_trainer"
        by (rule train_model_columns [OF tr])
      finally show ?thesis .
    qed
    show "\<exists>md. fs1 model_path = Some (Pickled md)
            \<and> md_version md = Some ''1.0''
            \<and> md_trained_at md = Some (snd (load_training_data query row_of clk) 0)
            \<and> md_feature_columns md = Some (t_feature_columns init_trainer)"
      by (rule exI [of _ "bundle_of tr (snd (load_training_data query row_of clk) 0)"])
         (simp add: f c bundle_of_provenance(1,2))
  qed
next
  show "dirname model_path \<noteq> []
        \<and> (\<exists>tr. train_model fit init_trainer (fst (load_training_data query row_of clk))
                   = Inr tr)
      \<longrightarrow> (\<exists>fs1 clk1. main fit query row_of model_path fs clk = (Inr fs1, clk1))"
  proof
    assume a: "dirname model_path \<noteq> []
        \<and> (\<exists>tr. train_model fit init_trainer (fst (load_training_data query row_of clk))
                   = Inr tr)"
    then obtain tr where
      tr: "train_model fit init_trainer (fst (load_training_data query row_of clk)) = Inr tr"
      by (elim exE conjE)
    from a have d: "dirname model_path \<noteq> []" by (rule conjunct1)
    from main_saves [OF d tr, of fs]
    show "\<exists>fs1 clk1. main fit query row_of model_path fs clk = (Inr fs1, clk1)"
      by (intro exI)
  qed
qed

theorem synthetic_fallback_unmarked_witness:
  "length (fst (load_training_data (Inr []) example_row_of example_clock)) = 5000
   \<and> fst (load_training_data (Inr example_history) example_row_of example_clock)
       = example_history
   \<and> map_option md_version
       (saved_bundle (main example_fit (Inr []) example_row_of example_model_path
          no_files example_clock) example_model_path) = Some (Some ''1.0'')"
proof -
  let ?q = "Inr [] :: exn + training_row list"
  note T = synthetic_fallback_unmarked [where query = ?q and row_of = example_row_of
      and clk = example_clock and fit = example_fit
      and model_path = example_model_path and fs = no_files]
  from T [THEN conjunct1]
  obtain df clk' where l: "load_training_data ?q example_row_of example_clock = (df, clk')"
    and s: "(\<forall>h. ?q = Inr h \<longrightarrow> length h < 100) \<longrightarrow>
             df = fst (generate_synthetic_training_data example_row_of example_clock 5000)
             \<and> length df = 5000"
    by (elim exE conjE)
  have p: "\<forall>h. ?q = Inr h \<longrightarrow> length h < 100" by simp
  from mp [OF s p] have "length df = 5000" by (rule conjunct2)
  with l have 1: "length (fst (load_training_data ?q example_row_of example_clock)) = 5000"
    by simp
  have 2: "fst (load_training_data (Inr example_history) example_row_of example_clock)
      = example_history"
    by (simp add: load_training_data_real example_history_length)
  have d: "dirname example_model_path \<noteq> []" by (simp add: dirname_example)
  have g: "load_training_data ?q example_row_of example_clock
      = generate_synthetic_training_data example_row_of example_clock 5000"
    by (simp add: load_training_data_synthetic)
  have "\<exists>tr. train_model example_fit init_trainer
      (fst (load_training_data ?q example_row_of example_clock)) = Inr tr"
    unfolding g by (rule exI, rule train_model_example, rule example_fit_synthetic)
  with d T [THEN conjunct2, THEN conjunct2]
  obtain fs1 clk1 where m: "main example_fit ?q example_row_of example_model_path no_files
      example_clock = (Inr fs1, clk1)"
    by blast
  from T [THEN conjunct2, THEN conjunct1, rule_format, OF m]
  obtain md where md: "fs1 example_model_path = Some (Pickled md)"
    and v: "md_version md = Some ''1.0''"
    by (elim exE conjE)
  from m md v have 3: "map_option md_version
       (saved_bundle (main example_fit ?q example_row_of example_model_path
          no_files example_clock) example_model_path) = Some (Some ''1.0'')"
    by (simp add: saved_bundle_def)
  from 1 2 3 show ?thesis by (intro conjI)
qed

text \<open>
  C10 as stated fails: a run that finds no history and trains on synthetic rows, and a
  run on a real history of 100 rows that saves at the same time, both leave a bundle at
  the default path, and the two bundles carry the same version, the same training time
  and the same columns; the bundle has no other provenance field.
\<close>

theorem provenance_counterexample:
  "fst (load_training_data (Inr []) example_row_of example_clock)
     = fst (generate_synthetic_training_data example_row_of example_clock 5000)
   \<and> fst (load_training_data (Inr example_history) example_row_of
            (\<lambda>n. example_clock (n + 5000)))
     = example_history
   \<and> saved_bundle (main example_fit (Inr []) example_row_of example_model_path
          no_files example_clock) example_model_path \<noteq> None
   \<and> saved_bundle (main example_fit (Inr example_history) example_row_of example_model_path
          no_files (\<lambda>n. example_clock (n + 5000))) example_model_path \<noteq> None
   \<and> map_option md_version
       (saved_bundle (main example_fit (Inr []) example_row_of example_model_path
          no_files example_clock) example_model_path)
     = map_option md_version
       (saved_bundle (main example_fit (Inr example_history) example_row_of
          example_model_path no_files (\<lambda>n. example_clock (n + 5000))) example_model_path)
   \<and> map_option md_trained_at
       (saved_bundle (main example_fit (Inr []) example_row_of example_model_path
          no_files example_clock) example_model_path)
     = map_option md_trained_at
       (saved_bundle (main example_fit (Inr example_history) example_row_of
          example_model_path no_files (\<lambda>n. example_clock (n + 5000))) example_model_path)
   \<and> map_option md_feature_columns
       (saved_bundle (main example_fit (Inr []) example_row_of example_model_path
          no_files example_clock) example_model_path)
     = map_option md_feature_columns
       (saved_bundle (main example_fit (Inr example_history) example_row_of
          example_model_path no_files (\<lambda>n. example_clock (n + 5000))) example_model_path)"
proof -
  let ?q = "Inr [] :: exn + training_row list"
  let ?r = "Inr example_history :: exn + training_row list"
  let ?later = "\<lambda>n. example_clock (n + 5000)"
  have d: "dirname example_model_path \<noteq> []" by (simp add: dirname_example)
  have g: "load_training_data ?q example_row_of example_clock
      = generate_synthetic_training_data example_row_of example_clock 5000"
    by (simp add: load_training_data_synthetic)
  have h: "load_training_data ?r example_row_of ?later = (example_history, ?later)"
    by (simp add: load_training_data_real example_history_length)
  obtain tr1 where t1: "train_model example_fit init_trainer
      (fst (load_training_data ?q example_row_of example_clock)) = Inr tr1"
    and c1: "t_feature_columns tr1 = t_feature_columns init_trainer"
    unfolding g
    using train_model_example [OF example_fit_synthetic] by simp
  obtain tr2 where t2: "train_model example_fit init_trainer
      (fst (load_training_data ?r example_row_of ?later)) = Inr tr2"
    and c2: "t_feature_columns tr2 = t_feature_columns init_trainer"
    unfolding h
    using train_model_example [OF example_fit_history] by simp
  note b1 = saved_bundle_main [OF d t1, of no_files]
  note b2 = saved_bundle_main [OF d t2, of no_files]
  have k1: "snd (load_training_data ?q example_row_of example_clock) 0 = example_clock 5000"
    by (simp add: g generate_clock)
  have k2: "snd (load_training_data ?r example_row_of ?later) 0 = example_clock 5000"
    by (simp add: h)
  show ?thesis
    unfolding b1 b2 k1 k2
    by (simp add: g h bundle_of_provenance c1 c2)
qed

end
